theory Spec2Isabelle
  imports Complex_Main "HOL-Library.AList"
begin

section \<open>Values of the Python program\<close>

text \<open>
  A Python \<open>str\<close> is the list of its Unicode code points; \<open>u\<close> writes an ASCII
  literal. Dictionary keys of the program itself are ASCII and stay \<open>string\<close>.
\<close>

type_synonym pystr = "nat list"

definition u :: "string \<Rightarrow> pystr" where
  "u s = map of_char s"

text \<open>
  \<open>str.strip()\<close> removes the white space of \<open>str.isspace\<close> at both ends: U+0009..U+000D,
  U+001C..U+0020, U+0085, U+00A0, U+1680, U+2000..U+200A, U+2028, U+2029, U+202F, U+205F,
  U+3000.
\<close>

definition isspace :: "nat \<Rightarrow> bool" where
  "isspace c \<longleftrightarrow>
     (9 \<le> c \<and> c \<le> 13) \<or> (28 \<le> c \<and> c \<le> 32) \<or> c = 133 \<or> c = 160 \<or> c = 5760 \<or>
     (8192 \<le> c \<and> c \<le> 8202) \<or> c = 8232 \<or> c = 8233 \<or> c = 8239 \<or> c = 8287 \<or> c = 12288"

definition strip :: "pystr \<Rightarrow> pystr" where
  "strip s = rev (dropWhile isspace (rev (dropWhile isspace s)))"

text \<open>
  A value that \<open>json.loads\<close> puts under a key of the recognition answer: \<open>None\<close> (also what
  \<open>dict.get\<close> gives for an absent key), a string, a number or boolean (\<open>PyOther\<close>), or an
  array or object (\<open>PyContainer\<close>). Of the last two kinds the program only ever takes the truth
  value and the rendering by \<open>str()\<close>, so they are given by these two.
\<close>

datatype pyval = PyNone | PyStr pystr | PyOther bool pystr | PyContainer bool pystr

fun truthy :: "pyval \<Rightarrow> bool" where
  "truthy PyNone = False"
| "truthy (PyStr s) = (s \<noteq> [])"
| "truthy (PyOther t s) = t"
| "truthy (PyContainer t s) = t"

fun py_str :: "pyval \<Rightarrow> pystr" where
  "py_str PyNone = u ''None''"
| "py_str (PyStr s) = s"
| "py_str (PyOther t s) = s"
| "py_str (PyContainer t s) = s"

text \<open>What can leave the inner \<open>try\<close> of the extraction: JSONDecodeError, or any other
  exception, with its text.\<close>

datatype raised = JSONDecodeError | OtherException pystr

text \<open>
  What the handlers raise. Every step handler turns any of these into an HTTP 400 answer whose
  detail is its own prefix followed by the text of the exception; the model keeps the cause.
  \<open>MarkingsMissing\<close> is the 400 "markings data absent, run step 3" of steps 4 and 5, and
  \<open>SpecificationMissing\<close> the 400 "specification file absent" of step 5;
  \<open>ComparisonMissing\<close> and \<open>FinalParamsMissing\<close> are the 400 "comparison data absent, run
  step 5" and "final parameters absent, run step 6" of step 7, and \<open>InvalidDateFormat\<close> the
  400 of step 6. The last seven belong to the document generation: the template is absent,
  \<open>load_workbook\<close> or \<open>save\<close> raises, a cell refuses a string with a control character
  (IllegalCharacterError) or a value that is no cell value (ValueError), a merged cell refuses
  any value (AttributeError), and \<open>ws.cell\<close> is called with the column \<open>None\<close> (TypeError).
\<close>

datatype exn =
    KeyError string
  | IndexError
  | ExtractionRaised raised
  | ReadFailed
  | ColumnsNotFound
  | BadQuantity
  | SpecificationParseError exn
  | SpecificationMissing
  | MarkingsMissing
  | ComparisonMissing
  | FinalParamsMissing
  | InvalidDateFormat
  | TemplateMissing
  | LoadFailed
  | SaveFailed
  | IllegalCharacter
  | CannotConvert
  | ReadOnlyCell
  | NoColumn

section \<open>Image quality (check_image_quality)\<close>

text \<open>
  The three status strings U+2705, U+26A0 U+FE0F and U+274C, used both for photo quality and
  for markings.
\<close>

datatype tier = Full | Partial | Failed

text \<open>
  What the body of the \<open>try\<close> gives: an exception, with its text (\<open>Image.open\<close> fails, or a
  later statement raises, as \<open>sum(pixels) / n\<close> does on an empty pixel list), or the size of the
  image and the two doubles \<open>avg_brightness\<close> and \<open>variance\<close> that the body computes from the
  pixels of the grayscale thumbnail. How these two come out of the pixels is floating-point
  arithmetic and is not modelled; a double is taken as the real number it denotes, on which
  the comparisons with 500, 240 and 15 are exact. The reported \<open>brightness\<close>
  (\<open>round(avg_brightness, 1)\<close>) is read by no stage and is left out.
\<close>

datatype image = Undecodable pystr | Image nat nat real real

datatype issue = LowResolution | Blurry | Overexposed | Underexposed | ProcessingError pystr

record quality_info =
  q_status :: tier
  q_readable :: bool
  q_issues :: "issue list"
  q_resolution :: "(nat \<times> nat) option"
  q_filename :: "pystr option"
  q_index :: "nat option"

definition quality_issues :: "nat \<Rightarrow> nat \<Rightarrow> real \<Rightarrow> real \<Rightarrow> issue list" where
  "quality_issues width height avg_brightness variance =
     (if width < 300 \<or> height < 300 then [LowResolution] else []) @
     (if variance < 500 then [Blurry] else []) @
     (if avg_brightness > 240 then [Overexposed]
      else if avg_brightness < 15 then [Underexposed] else [])"

definition processing_error :: "pystr \<Rightarrow> quality_info" where
  "processing_error e =
     \<lparr>q_status = Failed, q_readable = False, q_issues = [ProcessingError e],
      q_resolution = None, q_filename = None, q_index = None\<rparr>"

definition check_image_quality :: "image \<Rightarrow> quality_info" where
  "check_image_quality img =
     (case img of
        Undecodable e \<Rightarrow> processing_error e
      | Image width height avg_brightness variance \<Rightarrow>
          let issues = quality_issues width height avg_brightness variance;
              status = (if issues \<noteq> [] then Failed else Full);
              status = (if length issues = 1 then Partial else status)
          in \<lparr>q_status = status,
              q_readable = (length issues = 0),
              q_issues = issues,
              q_resolution = Some (width, height),
              q_filename = None, q_index = None\<rparr>)"

section \<open>Marking extraction (extract_marking_from_photo)\<close>

text \<open>
  The outcome of everything the function asks of the outside: \<open>Raised e\<close> when any statement
  of the outer \<open>try\<close> raises an exception other than JSONDecodeError (opening or saving the
  image, the upload, the model call, reading \<open>response.text\<close>, or \<open>.get\<close> on a JSON value that
  is not an object), \<open>e\<close> being its text; \<open>NotJSON\<close> when \<open>json.loads\<close> raises
  JSONDecodeError; \<open>Answer name article dimensions error\<close> for a JSON object, given by what
  \<open>.get\<close> returns for these four keys.
\<close>

datatype recognition = Raised pystr | NotJSON | Answer pyval pyval pyval pyval

text \<open>
  The comments a marking can carry: the error field of the answer, the two fixed texts of the
  extraction ("Gemini answer parse error", "API error: " and the first 100 characters of the
  exception), and the three that step 3 writes (the empty string, "marking unreadable",
  "photo unreadable").
\<close>

datatype comment =
    ErrorField pyval
  | GeminiParseError
  | ApiError pystr
  | EmptyComment
  | MarkingUnreadable
  | PhotoUnreadable

text \<open>
  A marking dictionary. \<open>m_readable\<close>, \<open>m_comment\<close>, \<open>m_filename\<close> and \<open>m_index\<close> are
  \<open>None\<close> when the dictionary has no such key. The constant keys \<open>confidence\<close> and
  \<open>demo_mode\<close>, which nothing reads, are left out.
\<close>

record marking =
  m_status :: tier
  m_name :: pyval
  m_article :: pyval
  m_dimensions :: pyval
  m_readable :: "bool option"
  m_comment :: "comment option"
  m_filename :: "pystr option"
  m_index :: "nat option"

definition failed_marking :: "comment \<Rightarrow> marking" where
  "failed_marking c =
     \<lparr>m_status = Failed, m_name = PyNone, m_article = PyNone, m_dimensions = PyNone,
      m_readable = Some False, m_comment = Some c, m_filename = None, m_index = None\<rparr>"

text \<open>The inner \<open>try\<close>: the parsed answer, or the exception that leaves it.\<close>

definition parse_answer :: "recognition \<Rightarrow> raised + marking" where
  "parse_answer r =
     (case r of
        Raised e \<Rightarrow> Inl (OtherException e)
      | NotJSON \<Rightarrow> Inl JSONDecodeError
      | Answer name article dimensions error \<Rightarrow>
          if truthy error then Inr (failed_marking (ErrorField error))
          else
            let has_name = (name \<noteq> PyNone);
                has_article = (article \<noteq> PyNone);
                (status, readable) =
                  (if has_name \<and> has_article then (Full, True)
                   else if has_article then (Partial, True)
                   else (Failed, False))
            in Inr \<lparr>m_status = status, m_name = name, m_article = article,
                     m_dimensions = dimensions, m_readable = Some readable,
                     m_comment = None, m_filename = None, m_index = None\<rparr>)"

text \<open>
  The function with its two handlers. Its result is a sum so that an exception leaving the
  function would be a value \<open>Inl\<close>.
\<close>

definition extract_marking_from_photo :: "recognition \<Rightarrow> raised + marking" where
  "extract_marking_from_photo r =
     (case parse_answer r of
        Inr m \<Rightarrow> Inr m
      | Inl JSONDecodeError \<Rightarrow> Inr (failed_marking GeminiParseError)
      | Inl (OtherException e) \<Rightarrow> Inr (failed_marking (ApiError (take 100 e))))"

section \<open>The session and its stages\<close>

record photo =
  path :: pystr
  filename :: pystr

record files_check =
  fc_success :: bool
  fc_specification :: nat
  fc_template :: nat
  fc_photos :: nat
  fc_missing :: "string list"

record quality_result =
  qr_photos :: "quality_info list"
  qr_total :: nat
  qr_readable :: int
  qr_unreadable :: nat

record markings_result =
  mr_markings :: "marking list"
  mr_total :: nat
  mr_extracted :: nat
  mr_partial :: nat
  mr_failed :: nat

record count_result =
  cr_total_photos :: nat
  cr_by_status :: "(tier \<times> int) list"
  cr_readable_markings :: nat
  cr_unique_articles :: nat
  cr_by_article :: "(pystr \<times> int) list"
  cr_photos_match :: bool

text \<open>The four status strings of a comparison: U+2705, U+2B07 U+FE0F, U+2B06 U+FE0F and
  U+1F501.\<close>

datatype classification = Match | Shortage | Excess | Unplanned

record spec_item =
  article :: pystr
  quantity :: int
  name :: pystr

record comparison_record =
  c_article :: pystr
  c_name :: pystr
  planned :: int
  actual :: int
  difference :: int
  c_status :: classification

record comparison_result =
  comparison :: "comparison_record list"
  total_positions :: nat
  exact_match :: nat
  shortage :: nat
  excess :: nat
  extra_articles :: nat

text \<open>The parameters that step 6 records, and the answer of step 7: the paths of the two
  generated files and the summary.\<close>

record final_parameters =
  fp_shipment_type :: pystr
  fp_shipment_date :: pystr
  fp_shipment_type_ru :: pystr

record generation_result =
  gr_invoice_path :: pystr
  gr_specification_path :: pystr
  gr_shipment_type :: pystr
  gr_shipment_date :: pystr

text \<open>
  \<open>session_data\<close>: the paths of the uploaded files (\<open>specification_file\<close> is the key
  \<open>specification\<close>), the photos, the step counter and the
  dictionary of stage results, one optional entry per key that steps 2 to 7 write
  (\<open>comparison_stage\<close> is the key \<open>comparison\<close>).
\<close>

record stage_results =
  photo_quality :: "quality_result option"
  markings :: "markings_result option"
  count_verification :: "count_result option"
  comparison_stage :: "comparison_result option"
  final_params :: "final_parameters option"
  generated_files :: "generation_result option"

record session_data =
  specification_file :: "pystr option"
  template :: "pystr option"
  photos :: "photo list"
  step :: nat
  results :: stage_results

definition no_results :: stage_results where
  "no_results = \<lparr>photo_quality = None, markings = None, count_verification = None,
                  comparison_stage = None, final_params = None, generated_files = None\<rparr>"

definition fresh_session :: session_data where
  "fresh_session = \<lparr>specification_file = None, template = None, photos = [], step = 1,
                     results = no_results\<rparr>"

text \<open>A path is a string or \<open>None\<close>; \<open>not path\<close> holds for \<open>None\<close> and for the empty string.\<close>

definition present :: "pystr option \<Rightarrow> bool" where
  "present p = (case p of None \<Rightarrow> False | Some s \<Rightarrow> s \<noteq> [])"

text \<open>
  Every stage takes the session and returns the session it leaves behind together with its
  answer: \<open>Inr\<close> the result, or \<open>Inl\<close> the exception that its handler reports as HTTP 400.
\<close>

subsection \<open>Step 1\<close>

text \<open>The three labels of \<open>missing\<close> are Russian texts; they are named here by what they
  stand for.\<close>

definition step1_check_files :: "session_data \<Rightarrow> session_data \<times> (exn + files_check)" where
  "step1_check_files s =
     (let missing =
            (if \<not> present (specification_file s) then [''specification''] else []) @
            (if \<not> present (template s) then [''template''] else []) @
            (if photos s = [] then [''photos''] else []);
          result = \<lparr>fc_success = (length missing = 0),
                    fc_specification = (if present (specification_file s) then 1 else 0),
                    fc_template = (if present (template s) then 1 else 0),
                    fc_photos = length (photos s),
                    fc_missing = missing\<rparr>
      in (if fc_success result then s\<lparr>step := 2\<rparr> else s, Inr result))"

subsection \<open>Step 2\<close>

text \<open>\<open>open_image\<close> is the file system seen through \<open>Image.open\<close>: what each path decodes
  to.\<close>

definition photo_quality_of :: "(pystr \<Rightarrow> image) \<Rightarrow> nat \<times> photo \<Rightarrow> quality_info" where
  "photo_quality_of open_image ip =
     (check_image_quality (open_image (path (snd ip))))
       \<lparr>q_filename := Some (filename (snd ip)), q_index := Some (fst ip)\<rparr>"

definition step2_check_photo_quality ::
  "(pystr \<Rightarrow> image) \<Rightarrow> session_data \<Rightarrow> session_data \<times> (exn + quality_result)" where
  "step2_check_photo_quality open_image s =
     (let photo_quality = map (photo_quality_of open_image) (enumerate 0 (photos s));
          unreadable_count = length (filter (\<lambda>q. \<not> q_readable q) photo_quality);
          result = \<lparr>qr_photos = photo_quality,
                    qr_total = length photo_quality,
                    qr_readable = int (length photo_quality) - int unreadable_count,
                    qr_unreadable = unreadable_count\<rparr>
      in (s\<lparr>results := (results s)\<lparr>photo_quality := Some result\<rparr>, step := 3\<rparr>, Inr result))"

subsection \<open>Step 3\<close>

definition unreadable_photo :: "nat \<Rightarrow> photo \<Rightarrow> marking" where
  "unreadable_photo i p =
     \<lparr>m_status = Failed, m_name = PyNone, m_article = PyNone, m_dimensions = PyNone,
      m_readable = None, m_comment = Some PhotoUnreadable,
      m_filename = Some (filename p), m_index = Some i\<rparr>"

text \<open>
  The marking of a readable photo: the extraction result with \<open>filename\<close>, \<open>index\<close> and
  \<open>comment\<close> set. No result of the extraction has a key \<open>error\<close>, so the \<open>elif\<close> of the
  source never fires; \<open>marking_info["readable"]\<close> raises KeyError when the key is absent.
\<close>

definition annotate :: "nat \<Rightarrow> photo \<Rightarrow> marking \<Rightarrow> exn + marking" where
  "annotate i p m =
     (case m_readable m of
        None \<Rightarrow> Inl (KeyError ''readable'')
      | Some r \<Rightarrow>
          Inr (m\<lparr>m_filename := Some (filename p), m_index := Some i,
                 m_comment := Some (if \<not> r then MarkingUnreadable else EmptyComment)\<rparr>))"

text \<open>
  One pass of the loop over \<open>enumerate(session_data["photos"])\<close>; \<open>q\<close> is the list
  \<open>results["photo_quality"]["photos"]\<close>. \<open>gemini\<close> gives the recognition outcome for each
  path; it is consulted only where the source calls the extraction.
\<close>

definition marking_of ::
  "(pystr \<Rightarrow> recognition) \<Rightarrow> quality_info list \<Rightarrow> nat \<times> photo \<Rightarrow> exn + marking" where
  "marking_of gemini q ip =
     (let i = fst ip; photo_data = snd ip
      in if \<not> i < length q then Inl IndexError
         else if \<not> q_readable (q ! i) then Inr (unreadable_photo i photo_data)
         else (case extract_marking_from_photo (gemini (path photo_data)) of
                 Inl e \<Rightarrow> Inl (ExtractionRaised e)
               | Inr m \<Rightarrow> annotate i photo_data m))"

text \<open>The loop; \<open>qs\<close> is \<open>None\<close> when \<open>results\<close> has no key \<open>photo_quality\<close>, which the first
  pass meets as a KeyError.\<close>

fun extract_loop ::
  "(pystr \<Rightarrow> recognition) \<Rightarrow> quality_info list option \<Rightarrow> (nat \<times> photo) list \<Rightarrow>
   exn + marking list" where
  "extract_loop gemini qs [] = Inr []"
| "extract_loop gemini qs (ip # ips) =
     (case qs of
        None \<Rightarrow> Inl (KeyError ''photo_quality'')
      | Some q \<Rightarrow>
          (case marking_of gemini q ip of
             Inl e \<Rightarrow> Inl e
           | Inr marking_info \<Rightarrow>
               (case extract_loop gemini qs ips of
                  Inl e \<Rightarrow> Inl e
                | Inr marking_results \<Rightarrow> Inr (marking_info # marking_results))))"

definition step3_extract_markings ::
  "(pystr \<Rightarrow> recognition) \<Rightarrow> session_data \<Rightarrow> session_data \<times> (exn + markings_result)" where
  "step3_extract_markings gemini s =
     (case extract_loop gemini (map_option qr_photos (photo_quality (results s)))
             (enumerate 0 (photos s)) of
        Inl e \<Rightarrow> (s, Inl e)
      | Inr marking_results \<Rightarrow>
          let result = \<lparr>mr_markings = marking_results,
                        mr_total = length marking_results,
                        mr_extracted = length (filter (\<lambda>m. m_status m = Full) marking_results),
                        mr_partial = length (filter (\<lambda>m. m_status m = Partial) marking_results),
                        mr_failed = length (filter (\<lambda>m. m_status m = Failed) marking_results)\<rparr>
          in (s\<lparr>results := (results s)\<lparr>markings := Some result\<rparr>, step := 4\<rparr>, Inr result))"

subsection \<open>Step 4\<close>

text \<open>
  A \<open>dict\<close> is an association list in insertion order: \<open>d.get(k, 0)\<close> is \<open>dict_get\<close>, and
  \<open>d[k] = v\<close> is \<open>AList.update\<close>, which replaces the value of a key in place and puts a
  new key at the end.
\<close>

definition dict_get :: "('k \<times> int) list \<Rightarrow> 'k \<Rightarrow> int" where
  "dict_get d k = (case map_of d k of None \<Rightarrow> 0 | Some v \<Rightarrow> v)"

definition increment :: "'k \<Rightarrow> ('k \<times> int) list \<Rightarrow> ('k \<times> int) list" where
  "increment k d = AList.update k (dict_get d k + 1) d"

definition article_key :: "marking \<Rightarrow> pystr" where
  "article_key m = strip (py_str (m_article m))"

text \<open>\<open>sum(1 for m in markings if m["readable"])\<close>: a marking without the key raises.\<close>

definition readable_markings :: "marking list \<Rightarrow> exn + nat" where
  "readable_markings ms =
     (if \<exists>m \<in> set ms. m_readable m = None then Inl (KeyError ''readable'')
      else Inr (length (filter (\<lambda>m. m_readable m = Some True) ms)))"

definition step4_count_verification ::
  "session_data \<Rightarrow> session_data \<times> (exn + count_result)" where
  "step4_count_verification s =
     (case markings (results s) of
        None \<Rightarrow> (s, Inl MarkingsMissing)
      | Some mr \<Rightarrow>
          let ms = mr_markings mr;
              count_by_status = fold (\<lambda>m. increment (m_status m)) ms [];
              count_by_article =
                fold (\<lambda>m d. if truthy (m_article m) then increment (article_key m) d else d)
                  ms [];
              articles_found = map article_key (filter (\<lambda>m. truthy (m_article m)) ms)
          in (case readable_markings ms of
                Inl e \<Rightarrow> (s, Inl e)
              | Inr readable \<Rightarrow>
                  let result = \<lparr>cr_total_photos = length ms,
                                cr_by_status = count_by_status,
                                cr_readable_markings = readable,
                                cr_unique_articles = length (remdups articles_found),
                                cr_by_article = count_by_article,
                                cr_photos_match = (length ms = length ms)\<rparr>
                  in (s\<lparr>results := (results s)\<lparr>count_verification := Some result\<rparr>,
                        step := 5\<rparr>, Inr result)))"

subsection \<open>The specification sheet (parse_excel_specification)\<close>

text \<open>
  The data frame that \<open>pd.read_excel\<close> returns, seen through what the function does with it.
  A column is given by \<open>str(col).lower()\<close>. A cell is missing (\<open>pd.notna\<close> false), with its
  \<open>str()\<close>, or a value given by its \<open>str()\<close> and by its \<open>int()\<close>, \<open>None\<close> when \<open>int()\<close>
  raises. A row lists its cells in column order.
\<close>

datatype cell = Missing pystr | Val pystr "int option"

record dataframe =
  columns :: "pystr list"
  rows :: "cell list list"

fun cell_str :: "cell \<Rightarrow> pystr" where
  "cell_str (Missing s) = s"
| "cell_str (Val s i) = s"

definition cell_at :: "cell list \<Rightarrow> nat \<Rightarrow> cell" where
  "cell_at row i = (if i < length row then row ! i else Missing (u ''nan''))"

text \<open>\<open>word in s\<close> for strings, and \<open>any(word in s for word in words)\<close>.\<close>

fun contains :: "pystr \<Rightarrow> pystr \<Rightarrow> bool" where
  "contains word [] = (word = [])"
| "contains word (c # cs) = (take (length word) (c # cs) = word \<or> contains word cs)"

definition any_in :: "pystr list \<Rightarrow> pystr \<Rightarrow> bool" where
  "any_in words s = list_ex (\<lambda>word. contains word s) words"

text \<open>The keyword lists; the Cyrillic words are written by their code points (in Latin
  letters: artikul, kod; kolichestvo, kol-vo; naimenovanie, nazvanie).\<close>

definition article_words :: "pystr list" where
  "article_words =
     [[0x430, 0x440, 0x442, 0x438, 0x43A, 0x443, 0x43B], [0x43A, 0x43E, 0x434], u ''article'']"

definition quantity_words :: "pystr list" where
  "quantity_words =
     [[0x43A, 0x43E, 0x43B, 0x438, 0x447, 0x435, 0x441, 0x442, 0x432, 0x43E],
      [0x43A, 0x43E, 0x43B, 0x2D, 0x432, 0x43E], u ''qty'', u ''quantity'']"

definition name_words :: "pystr list" where
  "name_words =
     [[0x43D, 0x430, 0x438, 0x43C, 0x435, 0x43D, 0x43E, 0x432, 0x430, 0x43D, 0x438, 0x435],
      [0x43D, 0x430, 0x437, 0x432, 0x430, 0x43D, 0x438, 0x435], u ''name'']"

text \<open>The loop over \<open>df.columns\<close>: the last column that matches a role keeps it. A column
  is remembered by its position.\<close>

definition find_column ::
  "nat \<times> pystr \<Rightarrow> nat option \<times> nat option \<times> nat option \<Rightarrow>
   nat option \<times> nat option \<times> nat option" where
  "find_column ic cols =
     (case cols of (articles_col, quantity_col, name_col) \<Rightarrow>
        if any_in article_words (snd ic) then (Some (fst ic), quantity_col, name_col)
        else if any_in quantity_words (snd ic) then (articles_col, Some (fst ic), name_col)
        else if any_in name_words (snd ic) then (articles_col, quantity_col, Some (fst ic))
        else (articles_col, quantity_col, name_col))"

definition find_columns :: "pystr list \<Rightarrow> nat option \<times> nat option \<times> nat option" where
  "find_columns cols = fold find_column (enumerate 0 cols) (None, None, None)"

definition spec_row :: "nat \<Rightarrow> nat \<Rightarrow> nat option \<Rightarrow> cell list \<Rightarrow> exn + spec_item option" where
  "spec_row articles_col quantity_col name_col row =
     (case cell_at row articles_col of
        Missing a \<Rightarrow> Inr None
      | Val a ai \<Rightarrow>
          (case cell_at row quantity_col of
             Missing q \<Rightarrow> Inr None
           | Val q None \<Rightarrow> Inl BadQuantity
           | Val q (Some n) \<Rightarrow>
               Inr (Some \<lparr>article = strip a, quantity = n,
                          name = (case name_col of
                                    None \<Rightarrow> []
                                  | Some j \<Rightarrow> strip (cell_str (cell_at row j)))\<rparr>)))"

fun spec_rows :: "nat \<Rightarrow> nat \<Rightarrow> nat option \<Rightarrow> cell list list \<Rightarrow> exn + spec_item list" where
  "spec_rows articles_col quantity_col name_col [] = Inr []"
| "spec_rows articles_col quantity_col name_col (row # rs) =
     (case spec_row articles_col quantity_col name_col row of
        Inl e \<Rightarrow> Inl e
      | Inr item \<Rightarrow>
          (case spec_rows articles_col quantity_col name_col rs of
             Inl e \<Rightarrow> Inl e
           | Inr specification \<Rightarrow>
               Inr ((case item of None \<Rightarrow> [] | Some i \<Rightarrow> [i]) @ specification)))"

text \<open>The argument is what \<open>pd.read_excel\<close> gave for the path, \<open>None\<close> when it raised. Every
  exception of the body is raised again as the ValueError "specification parse error".\<close>

definition parse_excel_specification :: "dataframe option \<Rightarrow> exn + spec_item list" where
  "parse_excel_specification file =
     (case file of
        None \<Rightarrow> Inl (SpecificationParseError ReadFailed)
      | Some df \<Rightarrow>
          (case find_columns (columns df) of
             (Some articles_col, Some quantity_col, name_col) \<Rightarrow>
               (case spec_rows articles_col quantity_col name_col (rows df) of
                  Inl e \<Rightarrow> Inl (SpecificationParseError e)
                | Inr specification \<Rightarrow> Inr specification)
           | _ \<Rightarrow> Inl (SpecificationParseError ColumnsNotFound)))"

subsection \<open>Step 5\<close>

text \<open>
  The loop that fills \<open>actual_count\<close>. \<open>marking["article"] and marking["readable"]\<close> reads
  \<open>readable\<close> only when the article is true, and raises KeyError when the key is absent.
\<close>

fun count_actual :: "marking list \<Rightarrow> (pystr \<times> int) list \<Rightarrow> exn + (pystr \<times> int) list" where
  "count_actual [] actual_count = Inr actual_count"
| "count_actual (marking # ms) actual_count =
     (if truthy (m_article marking) then
        (case m_readable marking of
           None \<Rightarrow> Inl (KeyError ''readable'')
         | Some readable \<Rightarrow>
             if readable then count_actual ms (increment (article_key marking) actual_count)
             else count_actual ms actual_count)
      else count_actual ms actual_count)"

definition classify :: "int \<Rightarrow> classification" where
  "classify diff =
     (if diff = 0 then Match else if diff < 0 then Shortage else Excess)"

definition compare_item :: "(pystr \<times> int) list \<Rightarrow> spec_item \<Rightarrow> comparison_record" where
  "compare_item actual_count spec_item =
     (let plan = quantity spec_item;
          act = dict_get actual_count (article spec_item);
          diff = act - plan
      in \<lparr>c_article = article spec_item, c_name = name spec_item, planned = plan,
          actual = act, difference = diff, c_status = classify diff\<rparr>)"

text \<open>The name of an article that the specification does not have ("not in the
  specification", in Russian).\<close>

definition not_in_specification :: pystr where
  "not_in_specification =
     [0x41D, 0x435, 0x20, 0x432, 0x20, 0x441, 0x43F, 0x435, 0x446, 0x438, 0x444, 0x438, 0x43A,
      0x430, 0x446, 0x438, 0x438]"

text \<open>An entry of the loop over the keys of \<open>actual_count\<close>; \<open>n\<close> is \<open>actual_count[article]\<close>,
  the value stored with the key.\<close>

definition extra_item :: "pystr \<times> int \<Rightarrow> comparison_record" where
  "extra_item an =
     \<lparr>c_article = fst an, c_name = not_in_specification, planned = 0,
      actual = snd an, difference = snd an, c_status = Unplanned\<rparr>"

definition compare_all :: "spec_item list \<Rightarrow> (pystr \<times> int) list \<Rightarrow> comparison_record list" where
  "compare_all specification actual_count =
     (let spec_articles = set (map article specification)
      in map (compare_item actual_count) specification @
         map extra_item (filter (\<lambda>an. fst an \<notin> spec_articles) actual_count))"

definition count_status :: "classification \<Rightarrow> comparison_record list \<Rightarrow> nat" where
  "count_status st cs = length (filter (\<lambda>c. c_status c = st) cs)"

definition summarize :: "comparison_record list \<Rightarrow> comparison_result" where
  "summarize cs =
     \<lparr>comparison = cs, total_positions = length cs,
      exact_match = count_status Match cs, shortage = count_status Shortage cs,
      excess = count_status Excess cs, extra_articles = count_status Unplanned cs\<rparr>"

text \<open>\<open>read_excel\<close> is the file system seen through \<open>pd.read_excel\<close>.\<close>

definition step5_compare_specification ::
  "(pystr \<Rightarrow> dataframe option) \<Rightarrow> session_data \<Rightarrow> session_data \<times> (exn + comparison_result)"
  where
  "step5_compare_specification read_excel s =
     (case specification_file s of
        None \<Rightarrow> (s, Inl SpecificationMissing)
      | Some file \<Rightarrow>
          if file = [] then (s, Inl SpecificationMissing)
          else
            (case markings (results s) of
               None \<Rightarrow> (s, Inl MarkingsMissing)
             | Some mr \<Rightarrow>
                 (case parse_excel_specification (read_excel file) of
                    Inl e \<Rightarrow> (s, Inl e)
                  | Inr specification \<Rightarrow>
                      (case count_actual (mr_markings mr) [] of
                         Inl e \<Rightarrow> (s, Inl e)
                       | Inr actual_count \<Rightarrow>
                           let result = summarize (compare_all specification actual_count)
                           in (s\<lparr>results := (results s)\<lparr>comparison_stage := Some result\<rparr>,
                                 step := 6\<rparr>, Inr result)))))"

section \<open>Document generation\<close>

text \<open>
  A worksheet as \<open>load_workbook\<close> gives it, seen through what the generators read. A cell
  value is \<open>None\<close> (\<open>Blank\<close>, also where the sheet has no cell) or a value given by its truth,
  its \<open>str()\<close> and its \<open>str().lower()\<close>. \<open>merged\<close> tells the cells that lie in a merged range
  without being its top left cell: they read as \<open>None\<close> and refuse every value. \<open>max_row\<close> and
  \<open>max_column\<close> are those of openpyxl, at least 1. \<open>ws[row]\<close> is the tuple of the cells of a
  row in the columns 1 to \<open>max_column\<close>; taking it creates these cells, which is why \<open>max_row\<close>
  is at least 9 once the rows 1 to 9 have been scanned.

  Both generators read cells only before they write to them, so a render is given by the list
  of its writes, in order: the values it sets and the cells it fills red.
\<close>

datatype loaded = Blank | Content bool pystr pystr

record sheet =
  cell_value :: "nat \<Rightarrow> nat \<Rightarrow> loaded"
  merged :: "nat \<Rightarrow> nat \<Rightarrow> bool"
  max_row :: nat
  max_column :: nat

text \<open>What the file system holds under a path: nothing, something that \<open>load_workbook\<close>
  refuses (or a workbook whose active sheet is no worksheet), or a workbook, given by its
  active sheet.\<close>

datatype workbook_file = Absent | Unreadable | Workbook sheet

text \<open>A value set in a cell: an integer, a string, a float (given by its \<open>repr()\<close>), or a
  number or boolean of the recognition answer (given by its \<open>str()\<close>).\<close>

datatype written = WInt int | WStr pystr | WFloat pystr | WJson pystr

datatype effect = SetValue nat nat written | SetFill nat nat

definition read_cell :: "sheet \<Rightarrow> nat \<Rightarrow> nat \<Rightarrow> loaded" where
  "read_cell ws row col = (if merged ws row col then Blank else cell_value ws row col)"

definition ws_row :: "sheet \<Rightarrow> nat \<Rightarrow> (nat \<times> loaded) list" where
  "ws_row ws row = map (\<lambda>col_idx. (col_idx, read_cell ws row col_idx)) [1..<max_column ws + 1]"

text \<open>\<open>cell.value and any(word in str(cell.value).lower() for word in words)\<close>.\<close>

definition header_matches :: "pystr list \<Rightarrow> loaded \<Rightarrow> bool" where
  "header_matches words v =
     (case v of Blank \<Rightarrow> False | Content t s value_lower \<Rightarrow> t \<and> any_in words value_lower)"

text \<open>
  What openpyxl does with a string set as a cell value: it keeps the first 32767 characters and
  refuses the control characters U+0000..U+0008, U+000B, U+000C and U+000E..U+001F. Arrays
  and objects are no cell values.
\<close>

definition illegal_character :: "nat \<Rightarrow> bool" where
  "illegal_character c \<longleftrightarrow> c \<le> 8 \<or> c = 11 \<or> c = 12 \<or> (14 \<le> c \<and> c \<le> 31)"

definition store_str :: "pystr \<Rightarrow> exn + written" where
  "store_str s =
     (if list_ex illegal_character (take 32767 s) then Inl IllegalCharacter
      else Inr (WStr (take 32767 s)))"

fun store :: "pyval \<Rightarrow> exn + written" where
  "store (PyStr s) = store_str s"
| "store (PyOther t s) = Inr (WJson s)"
| "store (PyContainer t s) = Inl CannotConvert"
| "store PyNone = Inl CannotConvert"

text \<open>
  \<open>ws.cell(row, column, value)\<close> and \<open>cell.value = value\<close>: a merged cell raises before the
  value is looked at, another cell raises when the value is no cell value, and otherwise the
  value is set.
\<close>

definition set_value :: "sheet \<Rightarrow> nat \<Rightarrow> nat \<Rightarrow> exn + written \<Rightarrow> exn + effect list" where
  "set_value ws row col v =
     (if merged ws row col then Inl ReadOnlyCell
      else (case v of Inl e \<Rightarrow> Inl e | Inr w \<Rightarrow> Inr [SetValue row col w]))"

text \<open>Statements in sequence: the first exception ends them.\<close>

definition then_do :: "exn + effect list \<Rightarrow> exn + effect list \<Rightarrow> exn + effect list" where
  "then_do a b =
     (case a of
        Inl e \<Rightarrow> Inl e
      | Inr x \<Rightarrow> (case b of Inl e \<Rightarrow> Inl e | Inr y \<Rightarrow> Inr (x @ y)))"

fun in_order :: "(exn + effect list) list \<Rightarrow> exn + effect list" where
  "in_order [] = Inr []"
| "in_order (a # as) = then_do a (in_order as)"

subsection \<open>The filled invoice (generate_filled_invoice)\<close>

text \<open>The keyword lists of the invoice, by code points (in Latin letters: naimenovanie,
  nazvanie; ed.izm, edinitsa; kolichestvo, kol-vo; ploshchad, m with superscript 2, kv.m).\<close>

definition invoice_name_words :: "pystr list" where
  "invoice_name_words =
     [[0x43D, 0x430, 0x438, 0x43C, 0x435, 0x43D, 0x43E, 0x432, 0x430, 0x43D, 0x438, 0x435],
      [0x43D, 0x430, 0x437, 0x432, 0x430, 0x43D, 0x438, 0x435]]"

definition invoice_unit_words :: "pystr list" where
  "invoice_unit_words =
     [[0x435, 0x434, 0x2E, 0x438, 0x437, 0x43C], [0x435, 0x434, 0x438, 0x43D, 0x438, 0x446, 0x430]]"

definition invoice_qty_words :: "pystr list" where
  "invoice_qty_words =
     [[0x43A, 0x43E, 0x43B, 0x438, 0x447, 0x435, 0x441, 0x442, 0x432, 0x43E],
      [0x43A, 0x43E, 0x43B, 0x2D, 0x432, 0x43E]]"

definition invoice_area_words :: "pystr list" where
  "invoice_area_words =
     [[0x43F, 0x43B, 0x43E, 0x449, 0x430, 0x434, 0x44C], [0x43C, 0xB2], [0x43A, 0x432, 0x2E, 0x43C]]"

text \<open>
  The search for the header row: in every row from 1 to 9 the first cell with a name keyword
  sets \<open>header_row\<close> to that row, and the search ends once \<open>header_row\<close> is above 1.
\<close>

fun header_scan :: "sheet \<Rightarrow> nat list \<Rightarrow> nat \<Rightarrow> nat" where
  "header_scan ws [] header_row = header_row"
| "header_scan ws (row # rs) header_row =
     (let found = (if list_ex (\<lambda>cell. header_matches invoice_name_words (snd cell)) (ws_row ws row)
                   then row else header_row)
      in if found > 1 then found else header_scan ws rs found)"

definition find_header_row :: "sheet \<Rightarrow> nat" where
  "find_header_row ws = header_scan ws [1..<10] 1"

record invoice_columns =
  name_col :: "nat option"
  unit_col :: "nat option"
  qty_col :: "nat option"
  area_col :: "nat option"

definition invoice_column :: "nat \<times> loaded \<Rightarrow> invoice_columns \<Rightarrow> invoice_columns" where
  "invoice_column cell cols =
     (if header_matches invoice_name_words (snd cell) then cols\<lparr>name_col := Some (fst cell)\<rparr>
      else if header_matches invoice_unit_words (snd cell) then cols\<lparr>unit_col := Some (fst cell)\<rparr>
      else if header_matches invoice_qty_words (snd cell) then cols\<lparr>qty_col := Some (fst cell)\<rparr>
      else if header_matches invoice_area_words (snd cell) then cols\<lparr>area_col := Some (fst cell)\<rparr>
      else cols)"

definition find_invoice_columns :: "sheet \<Rightarrow> nat \<Rightarrow> invoice_columns" where
  "find_invoice_columns ws header_row =
     fold invoice_column (ws_row ws header_row)
       \<lparr>name_col = None, unit_col = None, qty_col = None, area_col = None\<rparr>"

text \<open>The first marking of the article (compared as it is, not trimmed) that has a true
  name, and the first that has true dimensions.\<close>

definition marking_name :: "marking list \<Rightarrow> comparison_record \<Rightarrow> marking option" where
  "marking_name ms item =
     find (\<lambda>marking. m_article marking = PyStr (c_article item) \<and> truthy (m_name marking)) ms"

definition marking_dimensions :: "marking list \<Rightarrow> comparison_record \<Rightarrow> pyval" where
  "marking_dimensions ms item =
     (case find (\<lambda>marking. m_article marking = PyStr (c_article item) \<and>
                  truthy (m_dimensions marking)) ms of
        None \<Rightarrow> PyNone
      | Some marking \<Rightarrow> m_dimensions marking)"

definition name_or_article :: "comparison_record \<Rightarrow> pystr" where
  "name_or_article item = (if c_name item \<noteq> [] then c_name item else c_article item)"

text \<open>\<open>full_name or item["article"]\<close> as a cell value.\<close>

definition name_value :: "marking list \<Rightarrow> comparison_record \<Rightarrow> exn + written" where
  "name_value ms item =
     (case marking_name ms item of
        None \<Rightarrow> store_str (name_or_article item)
      | Some marking \<Rightarrow> store (m_name marking))"

definition unit_label :: pystr where
  "unit_label = [0x448, 0x442]"

text \<open>
  The writes of one shipped position. A column index is at least 1, so \<open>if name_col\<close> tests
  for \<open>None\<close>. The area is floating point: \<open>area\<close> stands for the lines that compute it, from
  the text \<open>item["name"] or item["article"]\<close>, the dimensions and the shipped quantity. It is
  \<open>None\<close> when \<open>total_area > 0\<close> is false and otherwise the float \<open>round(total_area, 2)\<close>;
  \<open>calculate_square_meters\<close> catches every exception, so the lines raise nothing. The render
  is modelled for any such function.
\<close>

definition name_writes ::
  "sheet \<Rightarrow> nat option \<Rightarrow> marking list \<Rightarrow> nat \<Rightarrow> comparison_record \<Rightarrow> exn + effect list" where
  "name_writes ws col ms data_row item =
     (case col of None \<Rightarrow> Inr [] | Some c \<Rightarrow> set_value ws data_row c (name_value ms item))"

definition unit_writes :: "sheet \<Rightarrow> nat option \<Rightarrow> nat \<Rightarrow> exn + effect list" where
  "unit_writes ws col data_row =
     (case col of None \<Rightarrow> Inr [] | Some c \<Rightarrow> set_value ws data_row c (store_str unit_label))"

definition qty_writes ::
  "sheet \<Rightarrow> nat option \<Rightarrow> nat \<Rightarrow> comparison_record \<Rightarrow> exn + effect list" where
  "qty_writes ws col data_row item =
     (case col of
        None \<Rightarrow> Inr []
      | Some c \<Rightarrow> set_value ws data_row c (Inr (WInt (actual item))))"

definition area_writes ::
  "(pystr \<Rightarrow> pyval \<Rightarrow> int \<Rightarrow> pystr option) \<Rightarrow> sheet \<Rightarrow> nat option \<Rightarrow> marking list \<Rightarrow> nat \<Rightarrow>
   comparison_record \<Rightarrow> exn + effect list" where
  "area_writes area ws col ms data_row item =
     (case col of
        None \<Rightarrow> Inr []
      | Some c \<Rightarrow>
          (case area (name_or_article item) (marking_dimensions ms item) (actual item) of
             None \<Rightarrow> Inr []
           | Some total_area \<Rightarrow> set_value ws data_row c (Inr (WFloat total_area))))"

definition invoice_row ::
  "(pystr \<Rightarrow> pyval \<Rightarrow> int \<Rightarrow> pystr option) \<Rightarrow> sheet \<Rightarrow> invoice_columns \<Rightarrow> marking list \<Rightarrow>
   nat \<Rightarrow> int \<Rightarrow> comparison_record \<Rightarrow> exn + effect list" where
  "invoice_row area ws cols ms data_row row_num item =
     in_order
       [set_value ws data_row 1 (Inr (WInt row_num)),
        name_writes ws (name_col cols) ms data_row item,
        unit_writes ws (unit_col cols) data_row,
        qty_writes ws (qty_col cols) data_row item,
        area_writes area ws (area_col cols) ms data_row item]"

text \<open>The loop over the comparison: a position with \<open>actual > 0\<close> takes the next row and the
  next number.\<close>

fun invoice_rows ::
  "(pystr \<Rightarrow> pyval \<Rightarrow> int \<Rightarrow> pystr option) \<Rightarrow> sheet \<Rightarrow> invoice_columns \<Rightarrow> marking list \<Rightarrow>
   nat \<Rightarrow> int \<Rightarrow> comparison_record list \<Rightarrow> exn + effect list" where
  "invoice_rows area ws cols ms data_row row_num [] = Inr []"
| "invoice_rows area ws cols ms data_row row_num (item # items) =
     (if actual item > 0 then
        then_do (invoice_row area ws cols ms data_row row_num item)
          (invoice_rows area ws cols ms (data_row + 1) (row_num + 1) items)
      else invoice_rows area ws cols ms data_row row_num items)"

text \<open>
  \<open>open_file\<close> is the file system seen through \<open>os.path.exists\<close> and \<open>load_workbook\<close>, and
  \<open>can_save\<close> tells whether \<open>save\<close> succeeds. Every exception of the body is raised again as
  "invoice generation error"; the model keeps the cause.
\<close>

definition generate_filled_invoice ::
  "(pystr \<Rightarrow> pyval \<Rightarrow> int \<Rightarrow> pystr option) \<Rightarrow> (pystr \<Rightarrow> workbook_file) \<Rightarrow> bool \<Rightarrow> session_data \<Rightarrow>
   comparison_record list \<Rightarrow> marking list \<Rightarrow> exn + effect list" where
  "generate_filled_invoice area open_file can_save s cmp ms =
     (case template s of
        None \<Rightarrow> Inl TemplateMissing
      | Some file \<Rightarrow>
          if file = [] then Inl TemplateMissing
          else
            (case open_file file of
               Absent \<Rightarrow> Inl TemplateMissing
             | Unreadable \<Rightarrow> Inl LoadFailed
             | Workbook ws \<Rightarrow>
                 let header_row = find_header_row ws;
                     cols = find_invoice_columns ws header_row
                 in (case invoice_rows area ws cols ms (header_row + 1) 1 cmp of
                       Inl e \<Rightarrow> Inl e
                     | Inr effects \<Rightarrow> if can_save then Inr effects else Inl SaveFailed)))"

subsection \<open>The updated specification (generate_updated_specification)\<close>

text \<open>The keyword lists (artikul, kod; otgruzhen, otpravlen; data) and the two header labels
  ("shipped", "shipment date", in Russian).\<close>

definition spec_article_words :: "pystr list" where
  "spec_article_words = [[0x430, 0x440, 0x442, 0x438, 0x43A, 0x443, 0x43B], [0x43A, 0x43E, 0x434]]"

definition spec_shipped_words :: "pystr list" where
  "spec_shipped_words =
     [[0x43E, 0x442, 0x433, 0x440, 0x443, 0x436, 0x435, 0x43D],
      [0x43E, 0x442, 0x43F, 0x440, 0x430, 0x432, 0x43B, 0x435, 0x43D]]"

definition spec_date_words :: "pystr list" where
  "spec_date_words = [[0x434, 0x430, 0x442, 0x430]]"

definition shipped_header :: pystr where
  "shipped_header = [0x41E, 0x442, 0x433, 0x440, 0x443, 0x436, 0x435, 0x43D, 0x43D, 0x44B, 0x435]"

definition date_header :: pystr where
  "date_header =
     [0x414, 0x430, 0x442, 0x430, 0x20, 0x43E, 0x442, 0x433, 0x440, 0x443, 0x437, 0x43A, 0x438]"

record spec_columns =
  article_col :: "nat option"
  shipped_col :: "nat option"
  date_col :: "nat option"

definition spec_column :: "nat \<times> loaded \<Rightarrow> spec_columns \<Rightarrow> spec_columns" where
  "spec_column cell cols =
     (if header_matches spec_article_words (snd cell) then cols\<lparr>article_col := Some (fst cell)\<rparr>
      else if header_matches spec_shipped_words (snd cell)
        then cols\<lparr>shipped_col := Some (fst cell)\<rparr>
      else if header_matches spec_date_words (snd cell) then cols\<lparr>date_col := Some (fst cell)\<rparr>
      else cols)"

text \<open>The search over all cells of the rows 1 to 9: the last match of a role keeps it.\<close>

definition find_spec_columns :: "sheet \<Rightarrow> spec_columns" where
  "find_spec_columns ws =
     fold (\<lambda>row. fold spec_column (ws_row ws row)) [1..<10]
       \<lparr>article_col = None, shipped_col = None, date_col = None\<rparr>"

text \<open>
  The columns in which the render writes: the resolved ones, or new ones after the last used
  column (\<open>ws.max_column\<close> is the shipped column once its header is written).
\<close>

definition shipped_column :: "sheet \<Rightarrow> nat" where
  "shipped_column ws =
     (case shipped_col (find_spec_columns ws) of None \<Rightarrow> max_column ws + 1 | Some c \<Rightarrow> c)"

definition date_column :: "sheet \<Rightarrow> nat" where
  "date_column ws =
     (case date_col (find_spec_columns ws) of
        None \<Rightarrow>
          max (shipped_column ws)
            (if shipped_col (find_spec_columns ws) = None
             then max (max_column ws) (shipped_column ws) else max_column ws) + 1
      | Some c \<Rightarrow> c)"

text \<open>The headers of the columns that did not resolve, written in row 1.\<close>

definition shipped_header_write :: "sheet \<Rightarrow> exn + effect list" where
  "shipped_header_write ws =
     (if shipped_col (find_spec_columns ws) = None
      then set_value ws 1 (shipped_column ws) (store_str shipped_header) else Inr [])"

definition date_header_write :: "sheet \<Rightarrow> exn + effect list" where
  "date_header_write ws =
     (if date_col (find_spec_columns ws) = None
      then set_value ws 1 (date_column ws) (store_str date_header) else Inr [])"

text \<open>
  The writes of one row: when the article cell is true and the comparison has its trimmed
  text, the shipped quantity, the date and, for an excess or an unplanned article, the red
  fill. \<open>ws.cell\<close> with the column \<open>None\<close> raises.
\<close>

definition spec_row_writes ::
  "sheet \<Rightarrow> nat option \<Rightarrow> nat \<Rightarrow> nat \<Rightarrow> comparison_record list \<Rightarrow> pystr \<Rightarrow> nat \<Rightarrow>
   exn + effect list" where
  "spec_row_writes ws acol scol dcol cmp shipment_date row_idx =
     (case acol of
        None \<Rightarrow> Inl NoColumn
      | Some c \<Rightarrow>
          (case read_cell ws row_idx c of
             Blank \<Rightarrow> Inr []
           | Content t s l \<Rightarrow>
               if \<not> t then Inr []
               else
                 (case find (\<lambda>item. c_article item = strip s) cmp of
                    None \<Rightarrow> Inr []
                  | Some item \<Rightarrow>
                      in_order
                        [set_value ws row_idx scol (Inr (WInt (actual item))),
                         set_value ws row_idx dcol (store_str shipment_date),
                         Inr (if c_status item = Excess \<or> c_status item = Unplanned
                              then [SetFill row_idx scol] else [])])))"

fun spec_rows_writes ::
  "sheet \<Rightarrow> nat option \<Rightarrow> nat \<Rightarrow> nat \<Rightarrow> comparison_record list \<Rightarrow> pystr \<Rightarrow> nat list \<Rightarrow>
   exn + effect list" where
  "spec_rows_writes ws acol scol dcol cmp shipment_date [] = Inr []"
| "spec_rows_writes ws acol scol dcol cmp shipment_date (row_idx # rs) =
     then_do (spec_row_writes ws acol scol dcol cmp shipment_date row_idx)
       (spec_rows_writes ws acol scol dcol cmp shipment_date rs)"

text \<open>The specification path is not tested before \<open>load_workbook\<close>, which raises for \<open>None\<close>
  and for a file that is absent. Every exception of the body is raised again as
  "specification update error".\<close>

definition generate_updated_specification ::
  "(pystr \<Rightarrow> workbook_file) \<Rightarrow> bool \<Rightarrow> session_data \<Rightarrow> comparison_record list \<Rightarrow> pystr \<Rightarrow>
   exn + effect list" where
  "generate_updated_specification open_file can_save s cmp shipment_date =
     (case specification_file s of
        None \<Rightarrow> Inl LoadFailed
      | Some file \<Rightarrow>
          (case open_file file of
             Absent \<Rightarrow> Inl LoadFailed
           | Unreadable \<Rightarrow> Inl LoadFailed
           | Workbook ws \<Rightarrow>
               (case in_order
                       [shipped_header_write ws,
                        date_header_write ws,
                        spec_rows_writes ws (article_col (find_spec_columns ws))
                          (shipped_column ws) (date_column ws) cmp shipment_date
                          [2..<max (max_row ws) 9 + 1]] of
                  Inl e \<Rightarrow> Inl e
                | Inr effects \<Rightarrow> if can_save then Inr effects else Inl SaveFailed)))"

section \<open>The last two stages\<close>

subsection \<open>Step 6\<close>

text \<open>
  \<open>strptime_ok\<close> tells whether \<open>datetime.strptime(shipment_date, "%d.%m.%Y")\<close> returns; when it
  raises, the stage answers 400 "wrong date format". The label is "final shipment" for the
  type \<open>full\<close> and "partial shipment" for every other type (both in Russian).
\<close>

definition full_type :: pystr where
  "full_type = [102, 117, 108, 108]"

definition final_shipment :: pystr where
  "final_shipment =
     [0x41E, 0x43A, 0x43E, 0x43D, 0x447, 0x430, 0x442, 0x435, 0x43B, 0x44C, 0x43D, 0x430,
      0x44F, 0x20, 0x43E, 0x442, 0x433, 0x440, 0x443, 0x437, 0x43A, 0x430]"

definition partial_shipment :: pystr where
  "partial_shipment =
     [0x427, 0x430, 0x441, 0x442, 0x438, 0x447, 0x43D, 0x430, 0x44F, 0x20, 0x43E, 0x442, 0x433,
      0x440, 0x443, 0x437, 0x43A, 0x430]"

definition step6_final_questions ::
  "(pystr \<Rightarrow> bool) \<Rightarrow> pystr \<Rightarrow> pystr \<Rightarrow> session_data \<Rightarrow>
   session_data \<times> (exn + final_parameters)" where
  "step6_final_questions strptime_ok shipment_type shipment_date s =
     (if \<not> strptime_ok shipment_date then (s, Inl InvalidDateFormat)
      else
        let params = \<lparr>fp_shipment_type = shipment_type,
                      fp_shipment_date = shipment_date,
                      fp_shipment_type_ru =
                        (if shipment_type = full_type then final_shipment
                         else partial_shipment)\<rparr>
        in (s\<lparr>results := (results s)\<lparr>final_params := Some params\<rparr>, step := 7\<rparr>, Inr params))"

subsection \<open>Step 7\<close>

text \<open>
  The three tests, in the order of the source, then the two renders, the invoice first.
  \<open>save_invoice\<close> and \<open>save_specification\<close> tell whether the two calls of \<open>save\<close> succeed, and
  \<open>invoice_path\<close> and \<open>spec_path\<close> are the paths that the renders return, which hold the time
  of the call. An exception of a render ends the stage before anything is recorded.
\<close>

definition step7_generate_files ::
  "(pystr \<Rightarrow> pyval \<Rightarrow> int \<Rightarrow> pystr option) \<Rightarrow> (pystr \<Rightarrow> workbook_file) \<Rightarrow> bool \<Rightarrow> bool \<Rightarrow>
   pystr \<Rightarrow> pystr \<Rightarrow> session_data \<Rightarrow> session_data \<times> (exn + generation_result)" where
  "step7_generate_files area open_file save_invoice save_specification invoice_path spec_path s =
     (case comparison_stage (results s) of
        None \<Rightarrow> (s, Inl ComparisonMissing)
      | Some cr \<Rightarrow>
          (case final_params (results s) of
             None \<Rightarrow> (s, Inl FinalParamsMissing)
           | Some params \<Rightarrow>
               (case markings (results s) of
                  None \<Rightarrow> (s, Inl MarkingsMissing)
                | Some mr \<Rightarrow>
                    (case generate_filled_invoice area open_file save_invoice s
                            (comparison cr) (mr_markings mr) of
                       Inl e \<Rightarrow> (s, Inl e)
                     | Inr invoice \<Rightarrow>
                         (case generate_updated_specification open_file save_specification s
                                 (comparison cr) (fp_shipment_date params) of
                            Inl e \<Rightarrow> (s, Inl e)
                          | Inr updated \<Rightarrow>
                              let result = \<lparr>gr_invoice_path = invoice_path,
                                            gr_specification_path = spec_path,
                                            gr_shipment_type = fp_shipment_type_ru params,
                                            gr_shipment_date = fp_shipment_date params\<rparr>
                              in (s\<lparr>results := (results s)\<lparr>generated_files := Some result\<rparr>,
                                    step := 8\<rparr>, Inr result))))))"

section \<open>What the statements speak about\<close>

text \<open>
  The specification that step 5 parses and the markings that it reads, as functions of the
  session; both are empty where step 5 fails before it has them.
\<close>

definition specification_of ::
  "(pystr \<Rightarrow> dataframe option) \<Rightarrow> session_data \<Rightarrow> spec_item list" where
  "specification_of read_excel s =
     (case specification_file s of
        None \<Rightarrow> []
      | Some file \<Rightarrow>
          (case parse_excel_specification (read_excel file) of
             Inl e \<Rightarrow> []
           | Inr specification \<Rightarrow> specification))"

definition markings_of :: "session_data \<Rightarrow> marking list" where
  "markings_of s = (case markings (results s) of None \<Rightarrow> [] | Some mr \<Rightarrow> mr_markings mr)"

text \<open>
  A marking counts when it is readable and carries a non-empty article; the observed articles
  are the trimmed articles of the markings that count, in the order of the marking list, and
  \<open>first_seen\<close> keeps the first occurrence of every element of a list.
\<close>

definition counted :: "marking \<Rightarrow> bool" where
  "counted m \<longleftrightarrow> truthy (m_article m) \<and> m_readable m = Some True"

definition observed :: "marking list \<Rightarrow> pystr list" where
  "observed ms = map article_key (filter counted ms)"

fun first_seen :: "'a list \<Rightarrow> 'a list" where
  "first_seen [] = []"
| "first_seen (x # xs) = x # first_seen (filter (\<lambda>y. y \<noteq> x) xs)"

subsection \<open>The end-to-end example\<close>

text \<open>
  A specification sheet with the columns "article" and "qty" and the rows A1, 10 and A2, 5;
  nineteen readable markings: ten of A1, seven of A2, two of A3.
\<close>

definition example_marking :: "pystr \<Rightarrow> marking" where
  "example_marking a =
     \<lparr>m_status = Full, m_name = PyStr [110], m_article = PyStr a, m_dimensions = PyNone,
      m_readable = Some True, m_comment = Some EmptyComment, m_filename = Some [102],
      m_index = Some 0\<rparr>"

definition example_markings :: "marking list" where
  "example_markings =
     replicate 10 (example_marking [65, 49]) @ replicate 7 (example_marking [65, 50]) @
     replicate 2 (example_marking [65, 51])"

definition example_sheet :: dataframe where
  "example_sheet =
     \<lparr>columns = [[97, 114, 116, 105, 99, 108, 101], [113, 116, 121]],
      rows = [[Val [65, 49] None, Val [49, 48] (Some 10)],
              [Val [65, 50] None, Val [53] (Some 5)]]\<rparr>"

definition read_example :: "pystr \<Rightarrow> dataframe option" where
  "read_example file = Some example_sheet"

definition example_session :: session_data where
  "example_session =
     \<lparr>specification_file = Some [115], template = None, photos = [], step = 4,
      results = no_results\<lparr>markings :=
        Some \<lparr>mr_markings = example_markings, mr_total = 19, mr_extracted = 19,
              mr_partial = 0, mr_failed = 0\<rparr>\<rparr>\<rparr>"

definition example_excess :: comparison_record where
  "example_excess =
     \<lparr>c_article = [65, 50], c_name = [], planned = 5, actual = 7, difference = 2,
      c_status = Excess\<rparr>"

definition example_result :: comparison_result where
  "example_result =
     \<lparr>comparison =
        [\<lparr>c_article = [65, 49], c_name = [], planned = 10, actual = 10, difference = 0,
          c_status = Match\<rparr>,
         example_excess,
         \<lparr>c_article = [65, 51], c_name = not_in_specification, planned = 0, actual = 2,
          difference = 2, c_status = Unplanned\<rparr>],
      total_positions = 3, exact_match = 1, shortage = 0, excess = 1, extra_articles = 1\<rparr>"

subsection \<open>A sheet with a repeated article, and markings of mixed readability\<close>

text \<open>The sheet lists the article A twice, with the quantities 1 and 2.\<close>

definition duplicate_sheet :: dataframe where
  "duplicate_sheet =
     \<lparr>columns = [[97, 114, 116, 105, 99, 108, 101], [113, 116, 121]],
      rows = [[Val [65] None, Val [49] (Some 1)], [Val [65] None, Val [50] (Some 2)]]\<rparr>"

definition read_duplicate :: "pystr \<Rightarrow> dataframe option" where
  "read_duplicate file = Some duplicate_sheet"

text \<open>Three markings: a readable B, an unreadable one that carries the article C, and an
  A padded with blanks.\<close>

definition mixed_markings :: "marking list" where
  "mixed_markings =
     [example_marking [66],
      (example_marking [67])\<lparr>m_status := Failed, m_readable := Some False\<rparr>,
      example_marking [32, 65, 32]]"

definition mixed_session :: session_data where
  "mixed_session =
     \<lparr>specification_file = Some [115], template = None, photos = [], step = 4,
      results = no_results\<lparr>markings :=
        Some \<lparr>mr_markings = mixed_markings, mr_total = 3, mr_extracted = 2,
              mr_partial = 0, mr_failed = 1\<rparr>\<rparr>\<rparr>"

definition mixed_comparison :: "comparison_record list" where
  "mixed_comparison =
     [\<lparr>c_article = [65], c_name = [], planned = 1, actual = 1, difference = 0,
       c_status = Match\<rparr>,
      \<lparr>c_article = [65], c_name = [], planned = 2, actual = 1, difference = - 1,
       c_status = Shortage\<rparr>,
      \<lparr>c_article = [66], c_name = not_in_specification, planned = 0, actual = 1,
       difference = 1, c_status = Unplanned\<rparr>]"

definition mixed_result :: comparison_result where
  "mixed_result =
     \<lparr>comparison = mixed_comparison, total_positions = 3, exact_match = 1, shortage = 1,
      excess = 0, extra_articles = 1\<rparr>"

subsection \<open>Two photos, one of them marginal\<close>

text \<open>
  The photo with the path "g" is a 300 by 300 image of mean brightness 100 and variance
  10000, which raises no issue; every other path is a 100 by 300 image with the same
  statistics, whose only issue is its resolution. The recognition answers every photo with the
  article A and no name.
\<close>

definition two_photos :: "photo list" where
  "two_photos = [\<lparr>path = [103], filename = [49]\<rparr>, \<lparr>path = [109], filename = [50]\<rparr>]"

definition open_example :: "pystr \<Rightarrow> image" where
  "open_example file =
     (if file = [103] then Image 300 300 100 10000 else Image 100 300 100 10000)"

definition gemini_example :: "pystr \<Rightarrow> recognition" where
  "gemini_example file = Answer PyNone (PyStr [65]) PyNone PyNone"

definition photo_session :: session_data where
  "photo_session =
     \<lparr>specification_file = None, template = None, photos = two_photos, step = 1,
      results = no_results\<rparr>"

definition example_quality :: quality_result where
  "example_quality =
     \<lparr>qr_photos =
        [\<lparr>q_status = Full, q_readable = True, q_issues = [], q_resolution = Some (300, 300),
          q_filename = Some [49], q_index = Some 0\<rparr>,
         \<lparr>q_status = Partial, q_readable = False, q_issues = [LowResolution],
          q_resolution = Some (100, 300), q_filename = Some [50], q_index = Some 1\<rparr>],
      qr_total = 2, qr_readable = 1, qr_unreadable = 1\<rparr>"

definition partial_marking :: marking where
  "partial_marking =
     \<lparr>m_status = Partial, m_name = PyNone, m_article = PyStr [65], m_dimensions = PyNone,
      m_readable = Some True, m_comment = Some EmptyComment, m_filename = Some [49],
      m_index = Some 0\<rparr>"

definition example_extraction :: markings_result where
  "example_extraction =
     \<lparr>mr_markings = [partial_marking, unreadable_photo 1 \<lparr>path = [109], filename = [50]\<rparr>],
      mr_total = 2, mr_extracted = 0, mr_partial = 1, mr_failed = 1\<rparr>"

subsection \<open>A plain sheet\<close>

text \<open>
  A sheet of two rows and two columns: the headers "Artikul" and "Kol-vo" (in Cyrillic) and
  under them the article A and the quantity 1. It has no column for the shipped quantity or
  the date; of the headers that the invoice looks for it has the quantity only. The comparison
  has the one record of A, planned 1 and found 1, and the shipment date is 01.01.2025.
\<close>

definition plain_cells :: "nat \<Rightarrow> nat \<Rightarrow> loaded" where
  "plain_cells r c =
     (if r = 1 \<and> c = 1
        then Content True [0x410, 0x440, 0x442, 0x438, 0x43A, 0x443, 0x43B]
               [0x430, 0x440, 0x442, 0x438, 0x43A, 0x443, 0x43B]
      else if r = 1 \<and> c = 2
        then Content True [0x41A, 0x43E, 0x43B, 0x2D, 0x432, 0x43E]
               [0x43A, 0x43E, 0x43B, 0x2D, 0x432, 0x43E]
      else if r = 2 \<and> c = 1 then Content True [65] [97]
      else if r = 2 \<and> c = 2 then Content True [49] [49]
      else Blank)"

definition no_merge :: "nat \<Rightarrow> nat \<Rightarrow> bool" where
  "no_merge r c = False"

definition plain_sheet :: sheet where
  "plain_sheet = \<lparr>cell_value = plain_cells, merged = no_merge, max_row = 2, max_column = 2\<rparr>"

definition open_plain :: "pystr \<Rightarrow> workbook_file" where
  "open_plain file = Workbook plain_sheet"

definition plain_session :: session_data where
  "plain_session =
     \<lparr>specification_file = Some [115], template = Some [116], photos = [], step = 7,
      results = no_results\<rparr>"

definition plain_item :: comparison_record where
  "plain_item =
     \<lparr>c_article = [65], c_name = [], planned = 1, actual = 1, difference = 0, c_status = Match\<rparr>"

definition plain_date :: pystr where
  "plain_date = [48, 49, 46, 48, 49, 46, 50, 48, 50, 53]"

text \<open>An area computation that finds no dimensions: the product is 0.0, and nothing is
  written.\<close>

definition no_area :: "pystr \<Rightarrow> pyval \<Rightarrow> int \<Rightarrow> pystr option" where
  "no_area text dimensions n = None"

subsection \<open>Sessions at the last stage\<close>

text \<open>
  A \<open>strptime\<close> that takes the date 01.01.2025 and no other, the parameters of a full shipment
  on that day, a session that holds a comparison only, and one that holds a comparison and
  the parameters.
\<close>

definition takes_plain_date :: "pystr \<Rightarrow> bool" where
  "takes_plain_date shipment_date \<longleftrightarrow> shipment_date = plain_date"

definition full_params :: final_parameters where
  "full_params =
     \<lparr>fp_shipment_type = full_type, fp_shipment_date = plain_date,
      fp_shipment_type_ru = final_shipment\<rparr>"

definition compared_session :: session_data where
  "compared_session =
     fresh_session\<lparr>results := no_results\<lparr>comparison_stage := Some example_result\<rparr>\<rparr>"

definition asked_session :: session_data where
  "asked_session =
     fresh_session\<lparr>results := no_results\<lparr>comparison_stage := Some example_result,
                                          final_params := Some full_params\<rparr>\<rparr>"

section \<open>Properties of counting and comparison\<close>

lemma increment_keys:
  "map fst (increment k d) = (if k \<in> set (map fst d) then map fst d else map fst d @ [k])"
  by (simp add: increment_def AList.update_keys)

lemma dict_get_increment:
  "dict_get (increment k d) a = (if a = k then dict_get d k + 1 else dict_get d a)"
  by (simp add: increment_def dict_get_def AList.update_conv')

lemma set_first_seen: "set (first_seen xs) = set xs"
  by (induction xs rule: first_seen.induct) auto

lemma distinct_first_seen: "distinct (first_seen xs)"
  by (induction xs rule: first_seen.induct) (auto simp: set_first_seen)

lemma count_actual_get:
  "count_actual ms d = Inr d' \<Longrightarrow>
   dict_get d' a =
     dict_get d a + int (length (filter (\<lambda>m. counted m \<and> article_key m = a) ms))"
proof (induction ms arbitrary: d)
  case Nil
  then show ?case by simp
next
  case (Cons m ms)
  then show ?case
    by (auto simp: counted_def dict_get_increment split: if_splits option.splits)
qed

lemma count_actual_keys:
  "count_actual ms d = Inr d' \<Longrightarrow>
   map fst d' = map fst d @ first_seen (filter (\<lambda>a. a \<notin> set (map fst d)) (observed ms))"
proof (induction ms arbitrary: d)
  case Nil
  then show ?case by (simp add: observed_def)
next
  case (Cons m ms)
  show ?case
  proof (cases "counted m")
    case False
    then have "count_actual ms d = Inr d'"
      using Cons.prems by (auto simp: counted_def split: if_splits option.splits)
    then show ?thesis using Cons.IH False by (simp add: observed_def)
  next
    case True
    let ?k = "article_key m"
    have run: "count_actual ms (increment ?k d) = Inr d'"
      using Cons.prems True by (auto simp: counted_def)
    have obs: "observed (m # ms) = ?k # observed ms"
      using True by (simp add: observed_def)
    show ?thesis
    proof (cases "?k \<in> set (map fst d)")
      case True
      then show ?thesis using Cons.IH [OF run] obs by (simp add: increment_keys)
    next
      case False
      then show ?thesis using Cons.IH [OF run] obs
        by (simp add: increment_keys conj_commute)
    qed
  qed
qed

lemma count_actual_entry:
  assumes "count_actual ms [] = Inr d" and "(a, n) \<in> set d"
  shows "n = int (length (filter (\<lambda>m. counted m \<and> article_key m = a) ms)) \<and> 0 < n
         \<and> a \<in> set (observed ms)"
proof -
  have keys: "map fst d = first_seen (observed ms)"
    using count_actual_keys [OF assms(1)] by simp
  then have "distinct (map fst d)" by (simp add: distinct_first_seen)
  then have "map_of d a = Some n" using assms(2) by simp
  then have "dict_get d a = n" by (simp add: dict_get_def)
  then have n: "n = int (length (filter (\<lambda>m. counted m \<and> article_key m = a) ms))"
    using count_actual_get [OF assms(1), of a] by (simp add: dict_get_def)
  have "a \<in> set (map fst d)" using assms(2) by force
  then have mem: "a \<in> set (observed ms)" using keys by (simp add: set_first_seen)
  then obtain m where "m \<in> set ms" "counted m" "article_key m = a"
    by (auto simp: observed_def)
  then have "filter (\<lambda>m. counted m \<and> article_key m = a) ms \<noteq> []"
    by (auto simp: filter_empty_conv)
  then show ?thesis using n mem by simp
qed

lemma step5_success:
  assumes "step5_compare_specification read_excel s = (s', Inr res)"
  shows "\<exists>actual_count.
           count_actual (markings_of s) [] = Inr actual_count \<and>
           res = summarize (compare_all (specification_of read_excel s) actual_count) \<and>
           s' = s\<lparr>results := (results s)\<lparr>comparison_stage := Some res\<rparr>, step := 6\<rparr>"
  using assms
  by (auto simp: step5_compare_specification_def specification_of_def markings_of_def Let_def
           split: option.splits if_splits sum.splits)

lemma compare_all_cases:
  assumes "c \<in> set (compare_all specification actual_count)"
  shows "(\<exists>item \<in> set specification. c = compare_item actual_count item) \<or>
         (\<exists>an \<in> set actual_count.
            fst an \<notin> article ` set specification \<and> c = extra_item an)"
  using assms by (auto simp: compare_all_def)

lemma compare_all_articles:
  "map c_article (compare_all specification actual_count) =
     map article specification @
     filter (\<lambda>a. a \<notin> article ` set specification) (map fst actual_count)"
  by (simp add: compare_all_def compare_item_def extra_item_def Let_def filter_map comp_def)

lemma comparison_articles:
  assumes "step5_compare_specification read_excel s = (s', Inr res)"
  shows "map c_article (comparison res) =
           map article (specification_of read_excel s) @
           filter (\<lambda>a. a \<notin> article ` set (specification_of read_excel s))
             (first_seen (observed (markings_of s)))"
proof -
  obtain actual_count where
    ac: "count_actual (markings_of s) [] = Inr actual_count" and
    res: "res = summarize (compare_all (specification_of read_excel s) actual_count)"
    using step5_success [OF assms] by blast
  have "map fst actual_count = first_seen (observed (markings_of s))"
    using count_actual_keys [OF ac] by simp
  then show ?thesis by (simp add: res summarize_def compare_all_articles)
qed

lemma replicate_numeral_Cons: "replicate (numeral k) x = x # replicate (pred_numeral k) x"
  by (simp add: numeral_eq_Suc)

lemma isspace_examples:
  "isspace 32" "\<not> isspace 65" "\<not> isspace 66" "\<not> isspace 67" "\<not> isspace 49" "\<not> isspace 50"
  "\<not> isspace 51"
  by (simp_all add: isspace_def)

lemma example_parse:
  "parse_excel_specification (Some example_sheet) =
     Inr [\<lparr>article = [65, 49], quantity = 10, name = []\<rparr>,
          \<lparr>article = [65, 50], quantity = 5, name = []\<rparr>]"
  by (simp add: parse_excel_specification_def example_sheet_def find_columns_def find_column_def
        any_in_def article_words_def quantity_words_def name_words_def u_def spec_row_def
        cell_at_def strip_def isspace_examples)

lemma example_count:
  "count_actual example_markings [] = Inr [([65, 49], 10), ([65, 50], 7), ([65, 51], 2)]"
  by (simp add: example_markings_def replicate_numeral_Cons example_marking_def
        article_key_def increment_def dict_get_def strip_def isspace_examples)

lemma example_step5:
  "step5_compare_specification read_example example_session =
     (example_session\<lparr>results := (results example_session)
         \<lparr>comparison_stage := Some example_result\<rparr>, step := 6\<rparr>,
      Inr example_result)"
  by (simp add: step5_compare_specification_def example_session_def read_example_def
        example_parse example_count no_results_def summarize_def compare_all_def
        compare_item_def extra_item_def classify_def dict_get_def count_status_def
        example_result_def example_excess_def Let_def numeral_3_eq_3)

lemma duplicate_parse:
  "parse_excel_specification (Some duplicate_sheet) =
     Inr [\<lparr>article = [65], quantity = 1, name = []\<rparr>,
          \<lparr>article = [65], quantity = 2, name = []\<rparr>]"
  by (simp add: parse_excel_specification_def duplicate_sheet_def find_columns_def
        find_column_def any_in_def article_words_def quantity_words_def name_words_def u_def
        spec_row_def cell_at_def strip_def isspace_examples)

lemma mixed_count: "count_actual mixed_markings [] = Inr [([66], 1), ([65], 1)]"
  by (simp add: mixed_markings_def example_marking_def article_key_def increment_def
        dict_get_def strip_def isspace_examples)

lemma mixed_step5:
  "step5_compare_specification read_duplicate mixed_session =
     (mixed_session\<lparr>results := (results mixed_session)
         \<lparr>comparison_stage := Some mixed_result\<rparr>, step := 6\<rparr>,
      Inr mixed_result)"
  by (simp add: step5_compare_specification_def mixed_session_def read_duplicate_def
        duplicate_parse mixed_count no_results_def summarize_def compare_all_def
        compare_item_def extra_item_def classify_def dict_get_def count_status_def
        mixed_result_def mixed_comparison_def Let_def numeral_3_eq_3)

section \<open>The comparison with the specification\<close>

text \<open>
  C1. Every record of the comparison that step 5 produces has \<open>difference = actual - planned\<close>;
  it is a Match exactly when the difference is zero, a Shortage exactly when it is negative,
  an Excess exactly when it is positive and the article is in the specification, and Unplanned
  exactly when the article is not in the specification, then with \<open>planned = 0\<close> and
  \<open>difference = actual\<close>. For the specification A1: 10, A2: 5 and the actual counts
  A1: 10, A2: 7, A3: 2 the result is A1 Match (0), A2 Excess (+2), A3 Unplanned (+2), with the
  summary counts 1, 0, 1, 1.
\<close>

theorem comparison_classification:
  "(\<forall>read_excel s s' res c.
      step5_compare_specification read_excel s = (s', Inr res) \<longrightarrow>
      c \<in> set (comparison res) \<longrightarrow>
        difference c = actual c - planned c \<and>
        (c_status c = Match \<longleftrightarrow> difference c = 0) \<and>
        (c_status c = Shortage \<longleftrightarrow> difference c < 0) \<and>
        (c_status c = Excess \<longleftrightarrow>
           0 < difference c \<and> c_article c \<in> article ` set (specification_of read_excel s)) \<and>
        (c_status c = Unplanned \<longleftrightarrow>
           c_article c \<notin> article ` set (specification_of read_excel s)) \<and>
        (c_status c = Unplanned \<longrightarrow> planned c = 0 \<and> difference c = actual c)) \<and>
   snd (step5_compare_specification read_example example_session) =
     Inr \<lparr>comparison =
            [\<lparr>c_article = [65, 49], c_name = [], planned = 10, actual = 10, difference = 0,
              c_status = Match\<rparr>,
             \<lparr>c_article = [65, 50], c_name = [], planned = 5, actual = 7, difference = 2,
              c_status = Excess\<rparr>,
             \<lparr>c_article = [65, 51], c_name = not_in_specification, planned = 0, actual = 2,
              difference = 2, c_status = Unplanned\<rparr>],
          total_positions = 3, exact_match = 1, shortage = 0, excess = 1, extra_articles = 1\<rparr>"
proof (intro conjI allI impI)
  fix read_excel s s' res c
  assume run: "step5_compare_specification read_excel s = (s', Inr res)"
    and mem: "c \<in> set (comparison res)"
  let ?spec = "specification_of read_excel s"
  obtain actual_count where
    ac: "count_actual (markings_of s) [] = Inr actual_count" and
    res: "res = summarize (compare_all ?spec actual_count)"
    using step5_success [OF run] by blast
  have "c \<in> set (compare_all ?spec actual_count)"
    using mem by (simp add: res summarize_def)
  then consider
    (listed) item where "item \<in> set ?spec" "c = compare_item actual_count item" |
    (extra) an where "an \<in> set actual_count" "fst an \<notin> article ` set ?spec"
      "c = extra_item an"
    using compare_all_cases by blast
  then have all:
    "difference c = actual c - planned c \<and>
     (c_status c = Match \<longleftrightarrow> difference c = 0) \<and>
     (c_status c = Shortage \<longleftrightarrow> difference c < 0) \<and>
     (c_status c = Excess \<longleftrightarrow> 0 < difference c \<and> c_article c \<in> article ` set ?spec) \<and>
     (c_status c = Unplanned \<longleftrightarrow> c_article c \<notin> article ` set ?spec) \<and>
     (c_status c = Unplanned \<longrightarrow> planned c = 0 \<and> difference c = actual c)"
  proof cases
    case listed
    then show ?thesis by (simp add: compare_item_def classify_def Let_def)
  next
    case extra
    have "(fst an, snd an) \<in> set actual_count" using extra(1) by simp
    then have "0 < snd an" using count_actual_entry [OF ac] by blast
    then show ?thesis using extra by (simp add: extra_item_def)
  qed
  from all show "difference c = actual c - planned c" by blast
  from all show "c_status c = Match \<longleftrightarrow> difference c = 0" by blast
  from all show "c_status c = Shortage \<longleftrightarrow> difference c < 0" by blast
  from all show "c_status c = Excess \<longleftrightarrow>
    0 < difference c \<and> c_article c \<in> article ` set ?spec" by blast
  from all show "c_status c = Unplanned \<longleftrightarrow> c_article c \<notin> article ` set ?spec" by blast
  from all show "planned c = 0" if "c_status c = Unplanned" using that by blast
  from all show "difference c = actual c" if "c_status c = Unplanned" using that by blast
next
  show "snd (step5_compare_specification read_example example_session) =
     Inr \<lparr>comparison =
            [\<lparr>c_article = [65, 49], c_name = [], planned = 10, actual = 10, difference = 0,
              c_status = Match\<rparr>,
             \<lparr>c_article = [65, 50], c_name = [], planned = 5, actual = 7, difference = 2,
              c_status = Excess\<rparr>,
             \<lparr>c_article = [65, 51], c_name = not_in_specification, planned = 0, actual = 2,
              difference = 2, c_status = Unplanned\<rparr>],
          total_positions = 3, exact_match = 1, shortage = 0, excess = 1, extra_articles = 1\<rparr>"
    by (simp add: example_step5 example_result_def example_excess_def)
qed

theorem comparison_classification_witness:
  "step5_compare_specification read_example example_session =
     (example_session\<lparr>results := (results example_session)
         \<lparr>comparison_stage := Some example_result\<rparr>, step := 6\<rparr>,
      Inr example_result) \<and>
   example_excess \<in> set (comparison example_result) \<and>
   difference example_excess = actual example_excess - planned example_excess \<and>
   c_status example_excess = Excess \<and> 0 < difference example_excess \<and>
   c_article example_excess \<in> article ` set (specification_of read_example example_session)"
proof -
  have mem: "example_excess \<in> set (comparison example_result)"
    by (simp add: example_result_def)
  have st: "c_status example_excess = Excess"
    by (simp add: example_excess_def)
  show ?thesis
    using comparison_classification [THEN conjunct1, rule_format, OF example_step5 mem] st mem
      example_step5
    by simp
qed

text \<open>
  C4. Step 5 counts, for every article, the markings that are readable and carry a non-empty
  article (an unreadable marking is not counted even when it carries an article), and its
  list holds the specification items first, in the order of the sheet, followed by the
  articles that the specification does not have, in the order in which the marking list first
  shows them.
\<close>

theorem comparison_counts_and_order:
  assumes "step5_compare_specification read_excel s = (s', Inr res)"
  shows "map c_article (comparison res) =
           map article (specification_of read_excel s) @
           filter (\<lambda>a. a \<notin> article ` set (specification_of read_excel s))
             (first_seen (observed (markings_of s))) \<and>
         (\<forall>c \<in> set (comparison res).
            actual c =
              int (length (filter
                (\<lambda>m. truthy (m_article m) \<and> m_readable m = Some True \<and>
                     strip (py_str (m_article m)) = c_article c) (markings_of s))))"
proof
  show "map c_article (comparison res) =
           map article (specification_of read_excel s) @
           filter (\<lambda>a. a \<notin> article ` set (specification_of read_excel s))
             (first_seen (observed (markings_of s)))"
    by (rule comparison_articles [OF assms])
next
  let ?spec = "specification_of read_excel s"
  let ?n = "\<lambda>a. int (length (filter (\<lambda>m. counted m \<and> article_key m = a) (markings_of s)))"
  obtain actual_count where
    ac: "count_actual (markings_of s) [] = Inr actual_count" and
    res: "res = summarize (compare_all ?spec actual_count)"
    using step5_success [OF assms] by blast
  have listed: "dict_get actual_count a = ?n a" for a
    using count_actual_get [OF ac, of a] by (simp add: dict_get_def)
  have "actual c = ?n (c_article c)" if "c \<in> set (comparison res)" for c
  proof -
    have "c \<in> set (compare_all ?spec actual_count)"
      using that by (simp add: res summarize_def)
    then consider
      (listed) item where "item \<in> set ?spec" "c = compare_item actual_count item" |
      (extra) an where "an \<in> set actual_count" "c = extra_item an"
      using compare_all_cases by blast
    then show ?thesis
    proof cases
      case listed
      then show ?thesis by (simp add: compare_item_def Let_def \<open>\<And>a. dict_get actual_count a = ?n a\<close>)
    next
      case extra
      have "(fst an, snd an) \<in> set actual_count" using extra(1) by simp
      then have "snd an = ?n (fst an)" using count_actual_entry [OF ac] by blast
      then show ?thesis using extra by (simp add: extra_item_def)
    qed
  qed
  then show "\<forall>c \<in> set (comparison res).
            actual c =
              int (length (filter
                (\<lambda>m. truthy (m_article m) \<and> m_readable m = Some True \<and>
                     strip (py_str (m_article m)) = c_article c) (markings_of s)))"
    by (simp add: counted_def article_key_def conj_assoc)
qed

theorem comparison_counts_and_order_witness:
  "step5_compare_specification read_duplicate mixed_session =
     (mixed_session\<lparr>results := (results mixed_session)
         \<lparr>comparison_stage := Some mixed_result\<rparr>, step := 6\<rparr>,
      Inr mixed_result) \<and>
   map c_article (comparison mixed_result) = [[65], [65], [66]] \<and>
   map actual (comparison mixed_result) = [1, 1, 1] \<and>
   map article (specification_of read_duplicate mixed_session) @
     filter (\<lambda>a. a \<notin> article ` set (specification_of read_duplicate mixed_session))
       (first_seen (observed (markings_of mixed_session))) = [[65], [65], [66]]"
  using comparison_counts_and_order [OF mixed_step5] mixed_step5
  by (simp add: mixed_result_def mixed_comparison_def)

lemma distinct_length_filter_eq:
  "distinct xs \<Longrightarrow> length (filter (\<lambda>x. x = a) xs) = (if a \<in> set xs then 1 else 0)"
  by (induction xs) auto

text \<open>
  C5, as the code has it. Step 5 writes one record for every row of the specification, so an
  article that the sheet lists several times has as many records; an article that only the
  markings show has exactly one. When the articles of the sheet are pairwise different, the
  list has exactly one record for every article of the specification or of the markings.
\<close>

theorem comparison_records_per_article:
  assumes "step5_compare_specification read_excel s = (s', Inr res)"
  shows "length (filter (\<lambda>c. c_article c = a) (comparison res)) =
           (if a \<in> article ` set (specification_of read_excel s)
            then length (filter (\<lambda>item. article item = a) (specification_of read_excel s))
            else if a \<in> set (observed (markings_of s)) then 1 else 0) \<and>
         (distinct (map article (specification_of read_excel s)) \<longrightarrow>
            distinct (map c_article (comparison res)) \<and>
            set (map c_article (comparison res)) =
              article ` set (specification_of read_excel s) \<union> set (observed (markings_of s)))"
proof
  let ?spec = "specification_of read_excel s"
  let ?extra = "filter (\<lambda>a. a \<notin> article ` set ?spec) (first_seen (observed (markings_of s)))"
  have arts: "map c_article (comparison res) = map article ?spec @ ?extra"
    by (rule comparison_articles [OF assms])
  have dist: "distinct ?extra"
    by (simp add: distinct_first_seen)
  have "length (filter (\<lambda>c. c_article c = a) (comparison res)) =
        length (filter (\<lambda>x. x = a) (map c_article (comparison res)))"
    by (simp add: filter_map comp_def)
  also have "\<dots> = length (filter (\<lambda>item. article item = a) ?spec) +
                   length (filter (\<lambda>x. x = a) ?extra)"
    by (simp add: arts filter_map comp_def)
  also have "length (filter (\<lambda>x. x = a) ?extra) = (if a \<in> set ?extra then 1 else 0)"
    using dist by (rule distinct_length_filter_eq)
  finally have count:
    "length (filter (\<lambda>c. c_article c = a) (comparison res)) =
       length (filter (\<lambda>item. article item = a) ?spec) + (if a \<in> set ?extra then 1 else 0)" .
  show "length (filter (\<lambda>c. c_article c = a) (comparison res)) =
           (if a \<in> article ` set ?spec
            then length (filter (\<lambda>item. article item = a) ?spec)
            else if a \<in> set (observed (markings_of s)) then 1 else 0)"
  proof (cases "a \<in> article ` set ?spec")
    case True
    then show ?thesis using count by simp
  next
    case False
    then have "filter (\<lambda>item. article item = a) ?spec = []"
      by (auto simp: filter_empty_conv)
    then show ?thesis using count False by (simp add: set_first_seen)
  qed
  show "distinct (map article ?spec) \<longrightarrow>
            distinct (map c_article (comparison res)) \<and>
            set (map c_article (comparison res)) =
              article ` set ?spec \<union> set (observed (markings_of s))"
    using dist by (auto simp: arts set_first_seen)
qed

theorem comparison_records_per_article_witness:
  "step5_compare_specification read_example example_session =
     (example_session\<lparr>results := (results example_session)
         \<lparr>comparison_stage := Some example_result\<rparr>, step := 6\<rparr>,
      Inr example_result) \<and>
   distinct (map article (specification_of read_example example_session)) \<and>
   distinct (map c_article (comparison example_result)) \<and>
   length (filter (\<lambda>c. c_article c = [65, 51]) (comparison example_result)) = 1"
proof -
  have spec: "specification_of read_example example_session =
      [\<lparr>article = [65, 49], quantity = 10, name = []\<rparr>,
       \<lparr>article = [65, 50], quantity = 5, name = []\<rparr>]"
    by (simp add: specification_of_def example_session_def read_example_def example_parse)
  have dist: "distinct (map article (specification_of read_example example_session))"
    by (simp add: spec)
  show ?thesis
    using comparison_records_per_article [OF example_step5, of "[65, 51]"] dist example_step5
    by (simp add: example_result_def example_excess_def)
qed

theorem duplicate_article_counterexample:
  "step5_compare_specification read_duplicate mixed_session =
     (mixed_session\<lparr>results := (results mixed_session)
         \<lparr>comparison_stage := Some mixed_result\<rparr>, step := 6\<rparr>,
      Inr mixed_result) \<and>
   map article (specification_of read_duplicate mixed_session) = [[65], [65]] \<and>
   map c_article (comparison mixed_result) = [[65], [65], [66]] \<and>
   \<not> distinct (map c_article (comparison mixed_result))"
proof -
  have spec: "map article (specification_of read_duplicate mixed_session) = [[65], [65]]"
    by (simp add: specification_of_def mixed_session_def read_duplicate_def duplicate_parse)
  show ?thesis
    using mixed_step5 spec by (simp add: mixed_result_def mixed_comparison_def)
qed

section \<open>Extraction and the markings of step 3\<close>

lemma extract_total: "\<exists>m. extract_marking_from_photo r = Inr m"
  by (cases r)
     (auto simp: extract_marking_from_photo_def parse_answer_def Let_def
           split: sum.splits raised.splits)

lemma extract_cases:
  assumes "extract_marking_from_photo r = Inr m"
  shows "(\<exists>c. m = failed_marking c) \<or>
         (\<exists>n a d e. r = Answer n a d e \<and> \<not> truthy e \<and>
            m = \<lparr>m_status = (if n \<noteq> PyNone \<and> a \<noteq> PyNone then Full
                               else if a \<noteq> PyNone then Partial else Failed),
                  m_name = n, m_article = a, m_dimensions = d,
                  m_readable = Some (a \<noteq> PyNone), m_comment = None,
                  m_filename = None, m_index = None\<rparr>)"
proof (cases r)
  case (Raised e)
  then show ?thesis
    using assms by (auto simp: extract_marking_from_photo_def parse_answer_def)
next
  case NotJSON
  then show ?thesis
    using assms by (auto simp: extract_marking_from_photo_def parse_answer_def)
next
  case (Answer n a d e)
  then show ?thesis
    using assms
    by (auto simp: extract_marking_from_photo_def parse_answer_def Let_def split: if_splits)
qed

lemma extract_tier:
  assumes "extract_marking_from_photo r = Inr m"
  shows "m_status m =
           (if m_name m \<noteq> PyNone \<and> m_article m \<noteq> PyNone then Full
            else if m_article m \<noteq> PyNone then Partial else Failed) \<and>
         m_readable m \<noteq> None \<and> (m_article m = PyNone \<longrightarrow> m_readable m = Some False)"
  using extract_cases [OF assms] by (auto simp: failed_marking_def)

lemma marking_of_cases:
  assumes "fst ip < length q"
  shows "\<exists>m. marking_of gemini q ip = Inr m \<and>
           (\<not> q_readable (q ! fst ip) \<longrightarrow> m = unreadable_photo (fst ip) (snd ip)) \<and>
           m_status m =
             (if m_name m \<noteq> PyNone \<and> m_article m \<noteq> PyNone then Full
              else if m_article m \<noteq> PyNone then Partial else Failed)"
proof (cases "q_readable (q ! fst ip)")
  case False
  then show ?thesis
    using assms by (simp add: marking_of_def Let_def unreadable_photo_def)
next
  case True
  obtain m where m: "extract_marking_from_photo (gemini (path (snd ip))) = Inr m"
    using extract_total by blast
  obtain r where r: "m_readable m = Some r"
    using extract_tier [OF m] by auto
  show ?thesis
    using assms True m r extract_tier [OF m]
    by (simp add: marking_of_def Let_def annotate_def)
qed

lemma extract_loop_all2:
  "extract_loop gemini (Some q) ips = Inr ms \<longleftrightarrow>
   list_all2 (\<lambda>ip m. marking_of gemini q ip = Inr m) ips ms"
proof (induction ips arbitrary: ms)
  case Nil
  show ?case by auto
next
  case (Cons ip ips)
  show ?case
  proof (cases "marking_of gemini q ip")
    case (Inl e)
    then show ?thesis by (auto simp: list_all2_Cons1)
  next
    case (Inr m)
    then have "extract_loop gemini (Some q) (ip # ips) = Inr ms \<longleftrightarrow>
        (\<exists>zs. ms = m # zs \<and> extract_loop gemini (Some q) ips = Inr zs)"
      by (auto split: sum.splits)
    then show ?thesis
      using Cons.IH Inr by (auto simp: list_all2_Cons1)
  qed
qed

lemma enumerate_bound: "ip \<in> set (enumerate 0 ps) \<Longrightarrow> fst ip < length ps"
  by (auto simp: in_set_enumerate_eq)

lemma extract_loop_total:
  assumes "\<forall>ip \<in> set ips. fst ip < length q"
  shows "\<exists>ms. extract_loop gemini (Some q) ips = Inr ms"
  using assms
proof (induction ips)
  case Nil
  show ?case by simp
next
  case (Cons ip ips)
  obtain m where "marking_of gemini q ip = Inr m"
    using marking_of_cases [of ip q gemini] Cons.prems by auto
  moreover obtain ms where "extract_loop gemini (Some q) ips = Inr ms"
    using Cons by auto
  ultimately show ?case by simp
qed

lemma step2_result:
  "step2_check_photo_quality open_image s = (s2, r) \<Longrightarrow>
   photos s2 = photos s \<and>
   map_option qr_photos (photo_quality (results s2)) =
     Some (map (photo_quality_of open_image) (enumerate 0 (photos s)))"
  by (auto simp: step2_check_photo_quality_def Let_def)

lemma step3_success:
  assumes "step3_extract_markings gemini s = (s', Inr res)"
  shows "extract_loop gemini (map_option qr_photos (photo_quality (results s)))
           (enumerate 0 (photos s)) = Inr (mr_markings res)"
  using assms
  by (auto simp: step3_extract_markings_def Let_def split: sum.splits)

text \<open>
  C3. Every marking that the pipeline produces, whether the extraction returns it or step 3
  writes it for an unreadable photo, is Full exactly when both its name and its article are
  present (not \<open>None\<close>, the test of the source), Partial exactly when its article is present and
  its name is absent, and Failed otherwise.
\<close>

theorem marking_status_tier:
  "(\<forall>r m. extract_marking_from_photo r = Inr m \<longrightarrow>
      (m_status m = Full \<longleftrightarrow> m_name m \<noteq> PyNone \<and> m_article m \<noteq> PyNone) \<and>
      (m_status m = Partial \<longleftrightarrow> m_article m \<noteq> PyNone \<and> m_name m = PyNone) \<and>
      (m_status m = Failed \<longleftrightarrow> m_article m = PyNone)) \<and>
   (\<forall>gemini s s' res m.
      step3_extract_markings gemini s = (s', Inr res) \<longrightarrow> m \<in> set (mr_markings res) \<longrightarrow>
      (m_status m = Full \<longleftrightarrow> m_name m \<noteq> PyNone \<and> m_article m \<noteq> PyNone) \<and>
      (m_status m = Partial \<longleftrightarrow> m_article m \<noteq> PyNone \<and> m_name m = PyNone) \<and>
      (m_status m = Failed \<longleftrightarrow> m_article m = PyNone))"
proof (intro conjI allI impI)
  fix r m
  assume "extract_marking_from_photo r = Inr m"
  then have st: "m_status m =
      (if m_name m \<noteq> PyNone \<and> m_article m \<noteq> PyNone then Full
       else if m_article m \<noteq> PyNone then Partial else Failed)"
    using extract_tier by blast
  show "m_status m = Full \<longleftrightarrow> m_name m \<noteq> PyNone \<and> m_article m \<noteq> PyNone"
    by (simp add: st)
  show "m_status m = Partial \<longleftrightarrow> m_article m \<noteq> PyNone \<and> m_name m = PyNone"
    by (auto simp: st)
  show "m_status m = Failed \<longleftrightarrow> m_article m = PyNone"
    by (simp add: st)
next
  fix gemini s s' res m
  assume run: "step3_extract_markings gemini s = (s', Inr res)"
    and mem: "m \<in> set (mr_markings res)"
  define q where "q = map_option qr_photos (photo_quality (results s))"
  have loop: "extract_loop gemini q (enumerate 0 (photos s)) = Inr (mr_markings res)"
    using step3_success [OF run] by (simp add: q_def)
  have st: "m_status m =
      (if m_name m \<noteq> PyNone \<and> m_article m \<noteq> PyNone then Full
       else if m_article m \<noteq> PyNone then Partial else Failed)"
  proof (cases q)
    case None
    then have "mr_markings res = []"
      using loop by (cases "enumerate 0 (photos s)") auto
    then show ?thesis using mem by simp
  next
    case (Some qs)
    then have "list_all2 (\<lambda>ip m. marking_of gemini qs ip = Inr m)
        (enumerate 0 (photos s)) (mr_markings res)"
      using loop by (simp add: extract_loop_all2)
    then have each: "length (enumerate 0 (photos s)) = length (mr_markings res)"
      "\<And>i. i < length (mr_markings res) \<Longrightarrow>
         marking_of gemini qs (enumerate 0 (photos s) ! i) = Inr (mr_markings res ! i)"
      by (simp_all add: list_all2_conv_all_nth)
    obtain i where i: "i < length (mr_markings res)" "mr_markings res ! i = m"
      using mem by (auto simp: in_set_conv_nth)
    define ip where "ip = enumerate 0 (photos s) ! i"
    have ip: "marking_of gemini qs ip = Inr m"
      using each(2) [OF i(1)] i(2) by (simp add: ip_def)
    have "fst ip < length qs"
      using ip by (auto simp: marking_of_def Let_def split: if_splits)
    then show ?thesis
      using marking_of_cases [of ip qs gemini] ip by auto
  qed
  show "m_status m = Full \<longleftrightarrow> m_name m \<noteq> PyNone \<and> m_article m \<noteq> PyNone"
    by (simp add: st)
  show "m_status m = Partial \<longleftrightarrow> m_article m \<noteq> PyNone \<and> m_name m = PyNone"
    by (auto simp: st)
  show "m_status m = Failed \<longleftrightarrow> m_article m = PyNone"
    by (simp add: st)
qed

lemma example_issues:
  "quality_issues 300 300 100 10000 = []" "quality_issues 100 300 100 10000 = [LowResolution]"
  by (simp_all add: quality_issues_def)

lemma example_step2:
  "step2_check_photo_quality open_example photo_session =
     (photo_session\<lparr>results := no_results\<lparr>photo_quality := Some example_quality\<rparr>, step := 3\<rparr>,
      Inr example_quality)"
  by (simp add: step2_check_photo_quality_def photo_session_def two_photos_def
        photo_quality_of_def open_example_def check_image_quality_def example_issues
        example_quality_def Let_def)

lemma example_step3:
  "step3_extract_markings gemini_example
     (photo_session\<lparr>results := no_results\<lparr>photo_quality := Some example_quality\<rparr>, step := 3\<rparr>) =
     (photo_session\<lparr>results := no_results\<lparr>photo_quality := Some example_quality,
         markings := Some example_extraction\<rparr>, step := 4\<rparr>,
      Inr example_extraction)"
  by (simp add: step3_extract_markings_def photo_session_def two_photos_def no_results_def
        example_quality_def marking_of_def gemini_example_def extract_marking_from_photo_def
        parse_answer_def annotate_def example_extraction_def partial_marking_def
        unreadable_photo_def Let_def)

theorem marking_status_tier_witness:
  "step3_extract_markings gemini_example
     (photo_session\<lparr>results := no_results\<lparr>photo_quality := Some example_quality\<rparr>, step := 3\<rparr>) =
     (photo_session\<lparr>results := no_results\<lparr>photo_quality := Some example_quality,
         markings := Some example_extraction\<rparr>, step := 4\<rparr>,
      Inr example_extraction) \<and>
   partial_marking \<in> set (mr_markings example_extraction) \<and>
   m_status partial_marking = Partial \<and> m_article partial_marking \<noteq> PyNone \<and>
   m_name partial_marking = PyNone"
proof -
  have mem: "partial_marking \<in> set (mr_markings example_extraction)"
    by (simp add: example_extraction_def)
  have st: "m_status partial_marking = Partial"
    by (simp add: partial_marking_def)
  show ?thesis
    using marking_status_tier [THEN conjunct2, rule_format, OF example_step3 mem] st mem
      example_step3
    by simp
qed

text \<open>
  C6. The extraction never lets an exception out: whatever the recognition does, it returns a
  marking; and when the call fails, the answer is not JSON, or the answer carries an error field
  (one that is true for Python, as the source tests it), that marking is Failed, not readable,
  without name, article and dimensions, and carries a comment that says what went wrong.
\<close>

theorem extraction_absorbs_failures:
  "(\<exists>m. extract_marking_from_photo r = Inr m) \<and>
   (r = NotJSON \<or> (\<exists>e. r = Raised e) \<or> (\<exists>n a d e. r = Answer n a d e \<and> truthy e) \<longrightarrow>
    (\<exists>m c. extract_marking_from_photo r = Inr m \<and>
       m_status m = Failed \<and> m_readable m = Some False \<and> m_name m = PyNone \<and>
       m_article m = PyNone \<and> m_dimensions m = PyNone \<and> m_comment m = Some c \<and>
       (r = NotJSON \<longrightarrow> c = GeminiParseError) \<and>
       (\<forall>e. r = Raised e \<longrightarrow> c = ApiError (take 100 e)) \<and>
       (\<forall>n a d e. r = Answer n a d e \<longrightarrow> c = ErrorField e)))"
proof
  show "\<exists>m. extract_marking_from_photo r = Inr m"
    by (rule extract_total)
next
  show "r = NotJSON \<or> (\<exists>e. r = Raised e) \<or> (\<exists>n a d e. r = Answer n a d e \<and> truthy e) \<longrightarrow>
    (\<exists>m c. extract_marking_from_photo r = Inr m \<and>
       m_status m = Failed \<and> m_readable m = Some False \<and> m_name m = PyNone \<and>
       m_article m = PyNone \<and> m_dimensions m = PyNone \<and> m_comment m = Some c \<and>
       (r = NotJSON \<longrightarrow> c = GeminiParseError) \<and>
       (\<forall>e. r = Raised e \<longrightarrow> c = ApiError (take 100 e)) \<and>
       (\<forall>n a d e. r = Answer n a d e \<longrightarrow> c = ErrorField e))"
    by (cases r)
       (auto simp: extract_marking_from_photo_def parse_answer_def failed_marking_def)
qed

theorem extraction_absorbs_failures_witness:
  "truthy (PyStr [98, 108, 117, 114]) \<and>
   extract_marking_from_photo (Answer (PyStr [110]) (PyStr [65]) PyNone (PyStr [98, 108, 117, 114])) =
     Inr \<lparr>m_status = Failed, m_name = PyNone, m_article = PyNone, m_dimensions = PyNone,
          m_readable = Some False, m_comment = Some (ErrorField (PyStr [98, 108, 117, 114])),
          m_filename = None, m_index = None\<rparr>"
  using extraction_absorbs_failures
    [of "Answer (PyStr [110]) (PyStr [65]) PyNone (PyStr [98, 108, 117, 114])"]
  by (simp add: extract_marking_from_photo_def parse_answer_def failed_marking_def)

section \<open>Marginal photos\<close>

lemma one_issue_unreadable:
  "length (q_issues (check_image_quality img)) = 1 \<Longrightarrow> \<not> q_readable (check_image_quality img)"
  by (cases img) (auto simp: check_image_quality_def processing_error_def Let_def)

lemma partial_one_issue:
  "q_status (check_image_quality img) = Partial \<Longrightarrow>
   length (q_issues (check_image_quality img)) = 1"
  by (cases img)
     (auto simp: check_image_quality_def processing_error_def Let_def split: if_splits)

lemma count_actual_skip:
  "\<not> truthy (m_article m) \<Longrightarrow> count_actual (xs @ m # ys) d = count_actual (xs @ ys) d"
  by (induction xs arbitrary: d) (auto split: option.splits)

lemma marking_of_gemini:
  assumes "gemini' (path (snd ip)) = gemini (path (snd ip)) \<or> \<not> q_readable (q ! fst ip)"
  shows "marking_of gemini' q ip = marking_of gemini q ip"
  using assms by (auto simp: marking_of_def Let_def)

text \<open>
  C10. A photo whose quality assessment has exactly one issue (the tier between passed and
  failed has exactly one) is not readable. After step 2, step 3 succeeds and gives that photo
  the marking "photo unreadable": Failed, without name, article and dimensions. The result of
  step 3 is the same for every recognition that agrees on the other photos, so the
  recognition of this photo is never consulted; and the marking list counts in step 5 as it
  would without this marking.
\<close>

theorem marginal_photo_skipped:
  assumes "i < length (photos s)"
    and "length (q_issues (check_image_quality (open_image (path (photos s ! i))))) = 1"
  shows "\<not> q_readable (check_image_quality (open_image (path (photos s ! i)))) \<and>
         (\<forall>img. q_status (check_image_quality img) = Partial \<longrightarrow>
                length (q_issues (check_image_quality img)) = 1) \<and>
         (\<exists>s3 r3.
            step3_extract_markings gemini (fst (step2_check_photo_quality open_image s)) =
              (s3, Inr r3) \<and>
            length (mr_markings r3) = length (photos s) \<and>
            mr_markings r3 ! i =
              \<lparr>m_status = Failed, m_name = PyNone, m_article = PyNone, m_dimensions = PyNone,
               m_readable = None, m_comment = Some PhotoUnreadable,
               m_filename = Some (filename (photos s ! i)), m_index = Some i\<rparr> \<and>
            count_actual (mr_markings r3) [] =
              count_actual (take i (mr_markings r3) @ drop (Suc i) (mr_markings r3)) [] \<and>
            (\<forall>gemini'.
               (\<forall>j < length (photos s).
                  j \<noteq> i \<longrightarrow> gemini' (path (photos s ! j)) = gemini (path (photos s ! j))) \<longrightarrow>
               step3_extract_markings gemini' (fst (step2_check_photo_quality open_image s)) =
                 (s3, Inr r3)))"
proof (intro conjI allI impI)
  show unreadable: "\<not> q_readable (check_image_quality (open_image (path (photos s ! i))))"
    using assms(2) by (rule one_issue_unreadable)
  show "length (q_issues (check_image_quality img)) = 1"
    if "q_status (check_image_quality img) = Partial" for img
    using that by (rule partial_one_issue)
  define s2 where "s2 = fst (step2_check_photo_quality open_image s)"
  define q where "q = map (photo_quality_of open_image) (enumerate 0 (photos s))"
  define ips where "ips = enumerate 0 (photos s)"
  have s2: "photos s2 = photos s" "map_option qr_photos (photo_quality (results s2)) = Some q"
    using step2_result [of open_image s s2 "snd (step2_check_photo_quality open_image s)"]
    by (simp_all add: s2_def q_def)
  have len: "length q = length (photos s)" "length ips = length (photos s)"
    by (simp_all add: q_def ips_def)
  have nth_ips: "ips ! j = (j, photos s ! j)" if "j < length (photos s)" for j
    using that by (simp add: ips_def nth_enumerate_eq)
  have qi: "\<not> q_readable (q ! i)"
    using unreadable assms(1) by (simp add: q_def nth_enumerate_eq photo_quality_of_def)
  have bound: "\<forall>ip \<in> set ips. fst ip < length q"
    using enumerate_bound by (auto simp: ips_def len)
  obtain ms where loop: "extract_loop gemini (Some q) ips = Inr ms"
    using extract_loop_total [OF bound] by blast
  then have all2: "list_all2 (\<lambda>ip m. marking_of gemini q ip = Inr m) ips ms"
    by (simp add: extract_loop_all2)
  then have lms: "length ms = length (photos s)"
    by (simp add: list_all2_lengthD [symmetric] len)
  have each: "marking_of gemini q (ips ! j) = Inr (ms ! j)" if "j < length (photos s)" for j
    using all2 that by (simp add: list_all2_conv_all_nth lms)
  have "marking_of gemini q (i, photos s ! i) = Inr (ms ! i)"
    using each [OF assms(1)] nth_ips [OF assms(1)] by simp
  then have msi: "ms ! i = unreadable_photo i (photos s ! i)"
    using qi assms(1) by (simp add: marking_of_def Let_def len)
  define r3 where
    "r3 = \<lparr>mr_markings = ms, mr_total = length ms,
           mr_extracted = length (filter (\<lambda>m. m_status m = Full) ms),
           mr_partial = length (filter (\<lambda>m. m_status m = Partial) ms),
           mr_failed = length (filter (\<lambda>m. m_status m = Failed) ms)\<rparr>"
  define s3 where "s3 = s2\<lparr>results := (results s2)\<lparr>markings := Some r3\<rparr>, step := 4\<rparr>"
  have run: "step3_extract_markings g s2 = (s3, Inr r3)"
    if "extract_loop g (Some q) ips = Inr ms" for g
    using that by (simp add: step3_extract_markings_def s2 ips_def r3_def s3_def Let_def)
  have split: "ms = take i ms @ ms ! i # drop (Suc i) ms"
    using assms(1) lms by (simp add: id_take_nth_drop)
  have "count_actual (take i ms @ ms ! i # drop (Suc i) ms) [] =
        count_actual (take i ms @ drop (Suc i) ms) []"
    by (rule count_actual_skip) (simp add: msi unreadable_photo_def)
  then have skip: "count_actual ms [] = count_actual (take i ms @ drop (Suc i) ms) []"
    using split by simp
  have other: "step3_extract_markings gemini' s2 = (s3, Inr r3)"
    if agree: "\<forall>j < length (photos s).
        j \<noteq> i \<longrightarrow> gemini' (path (photos s ! j)) = gemini (path (photos s ! j))"
    for gemini'
  proof -
    have "marking_of gemini' q (ips ! j) = Inr (ms ! j)" if j: "j < length (photos s)" for j
    proof -
      have "marking_of gemini' q (ips ! j) = marking_of gemini q (ips ! j)"
      proof (rule marking_of_gemini)
        show "gemini' (path (snd (ips ! j))) = gemini (path (snd (ips ! j))) \<or>
              \<not> q_readable (q ! fst (ips ! j))"
          using agree j qi nth_ips [OF j] by (cases "j = i") auto
      qed
      then show ?thesis using each [OF j] by simp
    qed
    then have "list_all2 (\<lambda>ip m. marking_of gemini' q ip = Inr m) ips ms"
      by (simp add: list_all2_conv_all_nth lms len)
    then have "extract_loop gemini' (Some q) ips = Inr ms"
      by (simp add: extract_loop_all2)
    then show ?thesis by (rule run)
  qed
  show "\<exists>s3 r3.
     step3_extract_markings gemini (fst (step2_check_photo_quality open_image s)) =
       (s3, Inr r3) \<and>
     length (mr_markings r3) = length (photos s) \<and>
     mr_markings r3 ! i =
       \<lparr>m_status = Failed, m_name = PyNone, m_article = PyNone, m_dimensions = PyNone,
        m_readable = None, m_comment = Some PhotoUnreadable,
        m_filename = Some (filename (photos s ! i)), m_index = Some i\<rparr> \<and>
     count_actual (mr_markings r3) [] =
       count_actual (take i (mr_markings r3) @ drop (Suc i) (mr_markings r3)) [] \<and>
     (\<forall>gemini'.
        (\<forall>j < length (photos s).
           j \<noteq> i \<longrightarrow> gemini' (path (photos s ! j)) = gemini (path (photos s ! j))) \<longrightarrow>
        step3_extract_markings gemini' (fst (step2_check_photo_quality open_image s)) =
          (s3, Inr r3))"
  proof (intro exI conjI allI impI)
    show "step3_extract_markings gemini (fst (step2_check_photo_quality open_image s)) =
       (s3, Inr r3)"
      using run [OF loop] by (simp add: s2_def)
    show "length (mr_markings r3) = length (photos s)"
      by (simp add: r3_def lms)
    show "mr_markings r3 ! i =
       \<lparr>m_status = Failed, m_name = PyNone, m_article = PyNone, m_dimensions = PyNone,
        m_readable = None, m_comment = Some PhotoUnreadable,
        m_filename = Some (filename (photos s ! i)), m_index = Some i\<rparr>"
      by (simp add: r3_def msi unreadable_photo_def)
    show "count_actual (mr_markings r3) [] =
       count_actual (take i (mr_markings r3) @ drop (Suc i) (mr_markings r3)) []"
      using skip by (simp add: r3_def)
    show "step3_extract_markings gemini' (fst (step2_check_photo_quality open_image s)) =
          (s3, Inr r3)"
      if "\<forall>j < length (photos s).
           j \<noteq> i \<longrightarrow> gemini' (path (photos s ! j)) = gemini (path (photos s ! j))"
      for gemini'
      using other [OF that] by (simp add: s2_def)
  qed
qed

theorem marginal_photo_skipped_witness:
  "(1::nat) < length (photos photo_session) \<and>
   length (q_issues (check_image_quality (open_example (path (photos photo_session ! 1))))) = 1 \<and>
   \<not> q_readable (check_image_quality (open_example (path (photos photo_session ! 1))))"
proof -
  have i: "(1::nat) < length (photos photo_session)"
    by (simp add: photo_session_def two_photos_def)
  have one:
    "length (q_issues (check_image_quality (open_example (path (photos photo_session ! 1))))) = 1"
    by (simp add: photo_session_def two_photos_def open_example_def check_image_quality_def
          example_issues Let_def)
  show ?thesis
    using marginal_photo_skipped
      [where i = 1 and s = photo_session and open_image = open_example
         and gemini = gemini_example] i one
    by blast
qed

section \<open>Columns that do not resolve\<close>

lemma then_do_Inr:
  "then_do a b = Inr w \<longleftrightarrow> (\<exists>x y. a = Inr x \<and> b = Inr y \<and> w = x @ y)"
  by (auto simp: then_do_def split: sum.splits)

lemma set_value_Inr:
  "set_value ws r c v = Inr w \<longleftrightarrow> (\<not> merged ws r c \<and> (\<exists>x. v = Inr x \<and> w = [SetValue r c x]))"
  by (auto simp: set_value_def split: sum.splits)

lemma role_writes_column:
  "name_writes ws col ms data_row item = Inr w \<Longrightarrow>
     \<forall>e \<in> set w. \<exists>v. e = SetValue data_row (the col) v \<and> col \<noteq> None"
  "unit_writes ws col data_row = Inr w \<Longrightarrow>
     \<forall>e \<in> set w. \<exists>v. e = SetValue data_row (the col) v \<and> col \<noteq> None"
  "qty_writes ws col data_row item = Inr w \<Longrightarrow>
     \<forall>e \<in> set w. \<exists>v. e = SetValue data_row (the col) v \<and> col \<noteq> None"
  "area_writes area ws col ms data_row item = Inr w \<Longrightarrow>
     \<forall>e \<in> set w. \<exists>v. e = SetValue data_row (the col) v \<and> col \<noteq> None"
  by (auto simp: name_writes_def unit_writes_def qty_writes_def area_writes_def set_value_Inr
           split: option.splits)

lemma invoice_row_Inr:
  "invoice_row area ws cols ms data_row row_num item = Inr w \<longleftrightarrow>
   (\<exists>w0 w1 w2 w3 w4.
      set_value ws data_row 1 (Inr (WInt row_num)) = Inr w0 \<and>
      name_writes ws (name_col cols) ms data_row item = Inr w1 \<and>
      unit_writes ws (unit_col cols) data_row = Inr w2 \<and>
      qty_writes ws (qty_col cols) data_row item = Inr w3 \<and>
      area_writes area ws (area_col cols) ms data_row item = Inr w4 \<and>
      w = w0 @ w1 @ w2 @ w3 @ w4)"
  by (auto simp: invoice_row_def then_do_Inr)

lemma invoice_row_columns:
  assumes "invoice_row area ws cols ms data_row row_num item = Inr w"
  shows "\<forall>e \<in> set w. \<exists>r c v. e = SetValue r c v \<and>
           (c = 1 \<or> Some c \<in> {name_col cols, unit_col cols, qty_col cols, area_col cols})"
proof -
  obtain w0 w1 w2 w3 w4 where
    w0: "set_value ws data_row 1 (Inr (WInt row_num)) = Inr w0" and
    w1: "name_writes ws (name_col cols) ms data_row item = Inr w1" and
    w2: "unit_writes ws (unit_col cols) data_row = Inr w2" and
    w3: "qty_writes ws (qty_col cols) data_row item = Inr w3" and
    w4: "area_writes area ws (area_col cols) ms data_row item = Inr w4" and
    w: "w = w0 @ w1 @ w2 @ w3 @ w4"
    using assms unfolding invoice_row_Inr by blast
  have "w0 = [SetValue data_row 1 (WInt row_num)]"
    using w0 by (simp add: set_value_Inr)
  then show ?thesis
    using role_writes_column(1) [OF w1] role_writes_column(2) [OF w2]
      role_writes_column(3) [OF w3] role_writes_column(4) [OF w4]
    unfolding w by fastforce
qed

lemma invoice_rows_columns:
  "invoice_rows area ws cols ms data_row row_num items = Inr w \<Longrightarrow>
   \<forall>e \<in> set w. \<exists>r c v. e = SetValue r c v \<and>
     (c = 1 \<or> Some c \<in> {name_col cols, unit_col cols, qty_col cols, area_col cols})"
proof (induction items arbitrary: data_row row_num w)
  case Nil
  then show ?case by simp
next
  case (Cons item items)
  show ?case
  proof (cases "actual item > 0")
    case False
    then show ?thesis using Cons by simp
  next
    case True
    then obtain w1 w2 where
      w1: "invoice_row area ws cols ms data_row row_num item = Inr w1" and
      w2: "invoice_rows area ws cols ms (data_row + 1) (row_num + 1) items = Inr w2" and
      w: "w = w1 @ w2"
      using Cons.prems by (auto simp: then_do_Inr)
    show ?thesis
      using invoice_row_columns [OF w1] Cons.IH [OF w2] by (auto simp: w)
  qed
qed

text \<open>Fewer resolved columns: fewer writes, and no new exception.\<close>

lemma role_writes_fewer:
  "col' = None \<or> col' = col \<Longrightarrow> name_writes ws col ms data_row item = Inr w \<Longrightarrow>
     \<exists>w'. name_writes ws col' ms data_row item = Inr w' \<and> set w' \<subseteq> set w"
  "col' = None \<or> col' = col \<Longrightarrow> unit_writes ws col data_row = Inr w \<Longrightarrow>
     \<exists>w'. unit_writes ws col' data_row = Inr w' \<and> set w' \<subseteq> set w"
  "col' = None \<or> col' = col \<Longrightarrow> qty_writes ws col data_row item = Inr w \<Longrightarrow>
     \<exists>w'. qty_writes ws col' data_row item = Inr w' \<and> set w' \<subseteq> set w"
  "col' = None \<or> col' = col \<Longrightarrow> area_writes area ws col ms data_row item = Inr w \<Longrightarrow>
     \<exists>w'. area_writes area ws col' ms data_row item = Inr w' \<and> set w' \<subseteq> set w"
  by (auto simp: name_writes_def unit_writes_def qty_writes_def area_writes_def)

lemma invoice_row_fewer:
  assumes "name_col cols' = None \<or> name_col cols' = name_col cols"
    and "unit_col cols' = None \<or> unit_col cols' = unit_col cols"
    and "qty_col cols' = None \<or> qty_col cols' = qty_col cols"
    and "area_col cols' = None \<or> area_col cols' = area_col cols"
    and "invoice_row area ws cols ms data_row row_num item = Inr w"
  shows "\<exists>w'. invoice_row area ws cols' ms data_row row_num item = Inr w' \<and> set w' \<subseteq> set w"
proof -
  obtain w0 w1 w2 w3 w4 where
    w0: "set_value ws data_row 1 (Inr (WInt row_num)) = Inr w0" and
    w1: "name_writes ws (name_col cols) ms data_row item = Inr w1" and
    w2: "unit_writes ws (unit_col cols) data_row = Inr w2" and
    w3: "qty_writes ws (qty_col cols) data_row item = Inr w3" and
    w4: "area_writes area ws (area_col cols) ms data_row item = Inr w4" and
    w: "w = w0 @ w1 @ w2 @ w3 @ w4"
    using assms(5) unfolding invoice_row_Inr by blast
  obtain v1 where v1: "name_writes ws (name_col cols') ms data_row item = Inr v1"
    "set v1 \<subseteq> set w1"
    using role_writes_fewer(1) [OF assms(1) w1] by blast
  obtain v2 where v2: "unit_writes ws (unit_col cols') data_row = Inr v2" "set v2 \<subseteq> set w2"
    using role_writes_fewer(2) [OF assms(2) w2] by blast
  obtain v3 where v3: "qty_writes ws (qty_col cols') data_row item = Inr v3" "set v3 \<subseteq> set w3"
    using role_writes_fewer(3) [OF assms(3) w3] by blast
  obtain v4 where v4: "area_writes area ws (area_col cols') ms data_row item = Inr v4"
    "set v4 \<subseteq> set w4"
    using role_writes_fewer(4) [OF assms(4) w4] by blast
  have "invoice_row area ws cols' ms data_row row_num item = Inr (w0 @ v1 @ v2 @ v3 @ v4)"
    unfolding invoice_row_Inr using w0 v1(1) v2(1) v3(1) v4(1) by blast
  moreover have "set (w0 @ v1 @ v2 @ v3 @ v4) \<subseteq> set w"
    using v1(2) v2(2) v3(2) v4(2) unfolding w by auto
  ultimately show ?thesis by blast
qed

lemma invoice_rows_fewer:
  assumes "name_col cols' = None \<or> name_col cols' = name_col cols"
    and "unit_col cols' = None \<or> unit_col cols' = unit_col cols"
    and "qty_col cols' = None \<or> qty_col cols' = qty_col cols"
    and "area_col cols' = None \<or> area_col cols' = area_col cols"
  shows "invoice_rows area ws cols ms data_row row_num items = Inr w \<Longrightarrow>
         \<exists>w'. invoice_rows area ws cols' ms data_row row_num items = Inr w' \<and> set w' \<subseteq> set w"
proof (induction items arbitrary: data_row row_num w)
  case Nil
  then show ?case by simp
next
  case (Cons item items)
  show ?case
  proof (cases "actual item > 0")
    case False
    then show ?thesis using Cons by simp
  next
    case True
    then obtain w1 w2 where
      w1: "invoice_row area ws cols ms data_row row_num item = Inr w1" and
      w2: "invoice_rows area ws cols ms (data_row + 1) (row_num + 1) items = Inr w2" and
      w: "w = w1 @ w2"
      using Cons.prems by (auto simp: then_do_Inr)
    obtain v1 where v1: "invoice_row area ws cols' ms data_row row_num item = Inr v1"
      "set v1 \<subseteq> set w1"
      using invoice_row_fewer [OF assms w1] by blast
    obtain v2 where
      v2: "invoice_rows area ws cols' ms (data_row + 1) (row_num + 1) items = Inr v2"
      "set v2 \<subseteq> set w2"
      using Cons.IH [OF w2] by blast
    have "invoice_rows area ws cols' ms data_row row_num (item # items) = Inr (v1 @ v2)"
      using True v1(1) v2(1) by (simp add: then_do_Inr)
    moreover have "set (v1 @ v2) \<subseteq> set w"
      using v1(2) v2(2) unfolding w by auto
    ultimately show ?thesis by blast
  qed
qed

lemma spec_rows_member:
  "spec_rows_writes ws acol scol dcol cmp d rs = Inr effects \<Longrightarrow> row \<in> set rs \<Longrightarrow>
   \<exists>w. spec_row_writes ws acol scol dcol cmp d row = Inr w \<and> set w \<subseteq> set effects"
proof (induction rs arbitrary: effects)
  case Nil
  then show ?case by simp
next
  case (Cons r rs)
  obtain w rest where
    w: "spec_row_writes ws acol scol dcol cmp d r = Inr w" and
    rest: "spec_rows_writes ws acol scol dcol cmp d rs = Inr rest" and
    eff: "effects = w @ rest"
    using Cons.prems(1) by (auto simp: then_do_Inr)
  show ?case
  proof (cases "row = r")
    case True
    then show ?thesis using w eff by auto
  next
    case False
    then have "row \<in> set rs" using Cons.prems(2) by simp
    then show ?thesis using Cons.IH [OF rest] eff by auto
  qed
qed

lemma store_str_Inr: "store_str t = Inr v \<longleftrightarrow> (\<not> list_ex illegal_character (take 32767 t) \<and> v = WStr (take 32767 t))"
  by (auto simp: store_str_def)

lemma short_take: "length t \<le> 32767 \<Longrightarrow> take 32767 t = t"
  by simp

lemma header_labels:
  "store_str shipped_header = Inr (WStr shipped_header)"
  "store_str date_header = Inr (WStr date_header)"
  "store_str unit_label = Inr (WStr unit_label)"
  "store_str plain_date = Inr (WStr plain_date)"
  unfolding store_str_def
  by (simp_all add: short_take shipped_header_def date_header_def unit_label_def
        plain_date_def illegal_character_def)

lemma rows_1_9: "[Suc 0..<10] = [Suc 0, 2, 3, 4, 5, 6, 7, 8, 9]"
  by (simp add: upt_conv_Cons)

lemma rows_2_9: "[2..<10] = [2, 3, 4, 5, 6, 7, 8, 9 :: nat]"
  by (simp add: upt_conv_Cons)

lemma plain_fields:
  "max_row plain_sheet = 2" "max_column plain_sheet = 2" "cell_value plain_sheet = plain_cells"
  "merged plain_sheet = no_merge"
  by (simp_all add: plain_sheet_def)

lemma plain_read: "read_cell plain_sheet r c = plain_cells r c"
  by (simp add: read_cell_def plain_fields no_merge_def)

lemma plain_row: "ws_row plain_sheet r = [(Suc 0, plain_cells r (Suc 0)), (2, plain_cells r 2)]"
  by (simp add: ws_row_def plain_read plain_fields upt_conv_Cons numeral_2_eq_2)

lemma plain_spec_columns:
  "find_spec_columns plain_sheet =
     \<lparr>article_col = Some (Suc 0), shipped_col = None, date_col = None\<rparr>"
  by (simp add: find_spec_columns_def rows_1_9 plain_row plain_cells_def spec_column_def
        header_matches_def any_in_def spec_article_words_def spec_shipped_words_def
        spec_date_words_def)

lemma plain_invoice_columns:
  "find_header_row plain_sheet = Suc 0"
  "find_invoice_columns plain_sheet (Suc 0) =
     \<lparr>name_col = None, unit_col = None, qty_col = Some 2, area_col = None\<rparr>"
  by (simp_all add: find_header_row_def find_invoice_columns_def rows_1_9 plain_row
        plain_cells_def invoice_column_def header_matches_def any_in_def
        invoice_name_words_def invoice_unit_words_def invoice_qty_words_def
        invoice_area_words_def)

lemma plain_columns: "shipped_column plain_sheet = 3" "date_column plain_sheet = 4"
  by (simp_all add: shipped_column_def date_column_def plain_spec_columns plain_fields)

lemma plain_update:
  "generate_updated_specification open_plain True plain_session [plain_item] plain_date =
     Inr [SetValue 1 3 (WStr shipped_header), SetValue 1 4 (WStr date_header),
          SetValue 2 3 (WInt 1), SetValue 2 4 (WStr plain_date)]"
  by (simp add: generate_updated_specification_def open_plain_def plain_session_def
        plain_spec_columns plain_columns shipped_header_write_def date_header_write_def
        header_labels set_value_def then_do_def plain_fields no_merge_def plain_read
        rows_2_9 spec_row_writes_def plain_cells_def plain_item_def
        strip_def isspace_examples)

lemma plain_rows:
  "invoice_rows area plain_sheet
     \<lparr>name_col = None, unit_col = None, qty_col = Some 2, area_col = None\<rparr> [] 2 1
     [plain_item] = Inr [SetValue 2 1 (WInt 1), SetValue 2 2 (WInt 1)]"
  "invoice_rows area plain_sheet
     \<lparr>name_col = None, unit_col = None, qty_col = None, area_col = None\<rparr> [] 2 1
     [plain_item] = Inr [SetValue 2 1 (WInt 1)]"
  by (simp_all add: invoice_row_def name_writes_def unit_writes_def qty_writes_def
        area_writes_def set_value_def then_do_def plain_fields no_merge_def plain_item_def)

lemma plain_invoice:
  "generate_filled_invoice area open_plain True plain_session [plain_item] [] =
     Inr [SetValue 2 1 (WInt 1), SetValue 2 2 (WInt 1)]"
  by (simp add: generate_filled_invoice_def open_plain_def plain_session_def
        plain_invoice_columns invoice_row_def name_writes_def unit_writes_def qty_writes_def
        area_writes_def set_value_def then_do_def plain_fields no_merge_def plain_item_def
        header_labels)

text \<open>
  C9, as the code has it. In the filled invoice a role column (name, unit, quantity, area)
  that does not resolve is skipped: a render that completes has filled the rows with the
  resolved columns, and each of its writes sets a value in column 1 or in a resolved column;
  and leaving columns unresolved raises nothing, for whenever the loop over the comparison
  completes with some columns, it completes with any of them unresolved, and writes nothing
  that it did not write before. In the updated specification a shipped or date column that
  does not resolve is not skipped. When that render completes, an unresolved shipped column
  is the column after the last used one, with its header written in row 1; an unresolved date
  column lies after the last used column and after the shipped column, with its header written
  in row 1; and every row from 2 to the last row (at least 9) whose article cell is true, with
  a trimmed text that the comparison has, has the shipped quantity of the first such record
  and the shipment date (its first 32767 characters) written in these two columns.
\<close>

theorem unresolved_columns:
  "(template s = Some tfile \<and> open_file tfile = Workbook ws \<and>
      generate_filled_invoice area open_file can_save s cmp ms = Inr effects \<longrightarrow>
      invoice_rows area ws (find_invoice_columns ws (find_header_row ws)) ms
        (find_header_row ws + 1) 1 cmp = Inr effects \<and>
      (\<forall>e \<in> set effects. \<exists>r c v. e = SetValue r c v \<and>
         (c = 1 \<or>
          Some c \<in> {name_col (find_invoice_columns ws (find_header_row ws)),
                     unit_col (find_invoice_columns ws (find_header_row ws)),
                     qty_col (find_invoice_columns ws (find_header_row ws)),
                     area_col (find_invoice_columns ws (find_header_row ws))}))) \<and>
   ((name_col cols' = None \<or> name_col cols' = name_col cols) \<and>
    (unit_col cols' = None \<or> unit_col cols' = unit_col cols) \<and>
    (qty_col cols' = None \<or> qty_col cols' = qty_col cols) \<and>
    (area_col cols' = None \<or> area_col cols' = area_col cols) \<and>
      invoice_rows area sh cols ms data_row row_num cmp = Inr filled \<longrightarrow>
      (\<exists>w. invoice_rows area sh cols' ms data_row row_num cmp = Inr w \<and>
           set w \<subseteq> set filled)) \<and>
   (specification_file s = Some sfile \<and> open_file sfile = Workbook ws' \<and>
      generate_updated_specification open_file can_save s cmp d = Inr effects' \<longrightarrow>
      (shipped_col (find_spec_columns ws') = None \<longrightarrow>
         shipped_column ws' = max_column ws' + 1 \<and>
         SetValue 1 (max_column ws' + 1) (WStr shipped_header) \<in> set effects') \<and>
      (date_col (find_spec_columns ws') = None \<longrightarrow>
         max_column ws' < date_column ws' \<and> shipped_column ws' < date_column ws' \<and>
         SetValue 1 (date_column ws') (WStr date_header) \<in> set effects') \<and>
      (\<forall>row a t l item.
         2 \<le> row \<and> row \<le> max (max_row ws') 9 \<and>
         article_col (find_spec_columns ws') = Some a \<and>
         read_cell ws' row a = Content True t l \<and>
         find (\<lambda>item. c_article item = strip t) cmp = Some item \<longrightarrow>
         SetValue row (shipped_column ws') (WInt (actual item)) \<in> set effects' \<and>
         SetValue row (date_column ws') (WStr (take 32767 d)) \<in> set effects'))"
proof (intro conjI)
  let ?cols = "find_invoice_columns ws (find_header_row ws)"
  show "template s = Some tfile \<and> open_file tfile = Workbook ws \<and>
      generate_filled_invoice area open_file can_save s cmp ms = Inr effects \<longrightarrow>
      invoice_rows area ws ?cols ms (find_header_row ws + 1) 1 cmp = Inr effects \<and>
      (\<forall>e \<in> set effects. \<exists>r c v. e = SetValue r c v \<and>
         (c = 1 \<or> Some c \<in> {name_col ?cols, unit_col ?cols, qty_col ?cols, area_col ?cols}))"
  proof
    assume h: "template s = Some tfile \<and> open_file tfile = Workbook ws \<and>
      generate_filled_invoice area open_file can_save s cmp ms = Inr effects"
    then have rows: "invoice_rows area ws ?cols ms (find_header_row ws + 1) 1 cmp = Inr effects"
      by (auto simp: generate_filled_invoice_def Let_def split: if_splits sum.splits)
    then have "\<forall>e \<in> set effects. \<exists>r c v. e = SetValue r c v \<and>
         (c = 1 \<or> Some c \<in> {name_col ?cols, unit_col ?cols, qty_col ?cols, area_col ?cols})"
      by (rule invoice_rows_columns)
    with rows show "invoice_rows area ws ?cols ms (find_header_row ws + 1) 1 cmp = Inr effects \<and>
      (\<forall>e \<in> set effects. \<exists>r c v. e = SetValue r c v \<and>
         (c = 1 \<or> Some c \<in> {name_col ?cols, unit_col ?cols, qty_col ?cols, area_col ?cols}))"
      by blast
  qed
  show "(name_col cols' = None \<or> name_col cols' = name_col cols) \<and>
    (unit_col cols' = None \<or> unit_col cols' = unit_col cols) \<and>
    (qty_col cols' = None \<or> qty_col cols' = qty_col cols) \<and>
    (area_col cols' = None \<or> area_col cols' = area_col cols) \<and>
      invoice_rows area sh cols ms data_row row_num cmp = Inr filled \<longrightarrow>
      (\<exists>w. invoice_rows area sh cols' ms data_row row_num cmp = Inr w \<and>
           set w \<subseteq> set filled)"
    using invoice_rows_fewer [of cols' cols area sh ms data_row row_num cmp filled] by blast
  let ?sc = "find_spec_columns ws'"
  show "specification_file s = Some sfile \<and> open_file sfile = Workbook ws' \<and>
      generate_updated_specification open_file can_save s cmp d = Inr effects' \<longrightarrow>
      (shipped_col ?sc = None \<longrightarrow>
         shipped_column ws' = max_column ws' + 1 \<and>
         SetValue 1 (max_column ws' + 1) (WStr shipped_header) \<in> set effects') \<and>
      (date_col ?sc = None \<longrightarrow>
         max_column ws' < date_column ws' \<and> shipped_column ws' < date_column ws' \<and>
         SetValue 1 (date_column ws') (WStr date_header) \<in> set effects') \<and>
      (\<forall>row a t l item.
         2 \<le> row \<and> row \<le> max (max_row ws') 9 \<and>
         article_col ?sc = Some a \<and>
         read_cell ws' row a = Content True t l \<and>
         find (\<lambda>item. c_article item = strip t) cmp = Some item \<longrightarrow>
         SetValue row (shipped_column ws') (WInt (actual item)) \<in> set effects' \<and>
         SetValue row (date_column ws') (WStr (take 32767 d)) \<in> set effects')"
  proof
    assume h: "specification_file s = Some sfile \<and> open_file sfile = Workbook ws' \<and>
      generate_updated_specification open_file can_save s cmp d = Inr effects'"
    then obtain h1 h2 body where
      h1: "shipped_header_write ws' = Inr h1" and
      h2: "date_header_write ws' = Inr h2" and
      body: "spec_rows_writes ws' (article_col ?sc) (shipped_column ws') (date_column ws')
               cmp d [2..<max (max_row ws') 9 + 1] = Inr body" and
      eff: "effects' = h1 @ h2 @ body"
      by (auto simp: generate_updated_specification_def then_do_Inr
               split: sum.splits if_splits)
    have shipped: "shipped_column ws' = max_column ws' + 1 \<and>
         SetValue 1 (max_column ws' + 1) (WStr shipped_header) \<in> set effects'"
      if "shipped_col ?sc = None"
    proof -
      have col: "shipped_column ws' = max_column ws' + 1"
        using that by (simp add: shipped_column_def)
      have "h1 = [SetValue 1 (max_column ws' + 1) (WStr shipped_header)]"
        using h1 that col by (auto simp: shipped_header_write_def set_value_Inr header_labels)
      then show ?thesis using col by (simp add: eff)
    qed
    have dated: "max_column ws' < date_column ws' \<and> shipped_column ws' < date_column ws' \<and>
         SetValue 1 (date_column ws') (WStr date_header) \<in> set effects'"
      if "date_col ?sc = None"
    proof -
      have col: "max_column ws' < date_column ws' \<and> shipped_column ws' < date_column ws'"
        using that by (auto simp: date_column_def)
      have "h2 = [SetValue 1 (date_column ws') (WStr date_header)]"
        using h2 that by (auto simp: date_header_write_def set_value_Inr header_labels)
      then show ?thesis using col by (simp add: eff)
    qed
    have filled: "SetValue row (shipped_column ws') (WInt (actual item)) \<in> set effects' \<and>
         SetValue row (date_column ws') (WStr (take 32767 d)) \<in> set effects'"
      if r: "2 \<le> row \<and> row \<le> max (max_row ws') 9 \<and>
         article_col ?sc = Some a \<and>
         read_cell ws' row a = Content True t l \<and>
         find (\<lambda>item. c_article item = strip t) cmp = Some item"
      for row a t l item
    proof -
      have "row \<in> set [2..<max (max_row ws') 9 + 1]" using r by auto
      then obtain w where
        w: "spec_row_writes ws' (article_col ?sc) (shipped_column ws') (date_column ws')
              cmp d row = Inr w" and
        sub: "set w \<subseteq> set body"
        using spec_rows_member [OF body] by blast
      have "SetValue row (shipped_column ws') (WInt (actual item)) \<in> set w \<and>
            SetValue row (date_column ws') (WStr (take 32767 d)) \<in> set w"
        using w r
        by (auto simp: spec_row_writes_def then_do_Inr set_value_Inr store_str_Inr)
      then show ?thesis using sub by (auto simp: eff)
    qed
    show "(shipped_col ?sc = None \<longrightarrow>
         shipped_column ws' = max_column ws' + 1 \<and>
         SetValue 1 (max_column ws' + 1) (WStr shipped_header) \<in> set effects') \<and>
      (date_col ?sc = None \<longrightarrow>
         max_column ws' < date_column ws' \<and> shipped_column ws' < date_column ws' \<and>
         SetValue 1 (date_column ws') (WStr date_header) \<in> set effects') \<and>
      (\<forall>row a t l item.
         2 \<le> row \<and> row \<le> max (max_row ws') 9 \<and>
         article_col ?sc = Some a \<and>
         read_cell ws' row a = Content True t l \<and>
         find (\<lambda>item. c_article item = strip t) cmp = Some item \<longrightarrow>
         SetValue row (shipped_column ws') (WInt (actual item)) \<in> set effects' \<and>
         SetValue row (date_column ws') (WStr (take 32767 d)) \<in> set effects')"
      using shipped dated filled by blast
  qed
qed

theorem unresolved_columns_witness:
  "template plain_session = Some [116] \<and> specification_file plain_session = Some [115] \<and>
   open_plain [116] = Workbook plain_sheet \<and> open_plain [115] = Workbook plain_sheet \<and>
   find_invoice_columns plain_sheet (find_header_row plain_sheet) =
     \<lparr>name_col = None, unit_col = None, qty_col = Some 2, area_col = None\<rparr> \<and>
   generate_filled_invoice no_area open_plain True plain_session [plain_item] [] =
     Inr [SetValue 2 1 (WInt 1), SetValue 2 2 (WInt 1)] \<and>
   invoice_rows no_area plain_sheet
     \<lparr>name_col = None, unit_col = None, qty_col = Some 2, area_col = None\<rparr> [] 2 1
     [plain_item] = Inr [SetValue 2 1 (WInt 1), SetValue 2 2 (WInt 1)] \<and>
   invoice_rows no_area plain_sheet
     \<lparr>name_col = None, unit_col = None, qty_col = None, area_col = None\<rparr> [] 2 1
     [plain_item] = Inr [SetValue 2 1 (WInt 1)] \<and>
   shipped_col (find_spec_columns plain_sheet) = None \<and>
   date_col (find_spec_columns plain_sheet) = None \<and>
   article_col (find_spec_columns plain_sheet) = Some 1 \<and>
   read_cell plain_sheet 2 1 = Content True [65] [97] \<and>
   find (\<lambda>item. c_article item = strip [65]) [plain_item] = Some plain_item \<and>
   generate_updated_specification open_plain True plain_session [plain_item] plain_date =
     Inr [SetValue 1 3 (WStr shipped_header), SetValue 1 4 (WStr date_header),
          SetValue 2 3 (WInt 1), SetValue 2 4 (WStr plain_date)] \<and>
   shipped_column plain_sheet = 3 \<and> date_column plain_sheet = 4"
proof -
  have facts:
    "template plain_session = Some [116]" "specification_file plain_session = Some [115]"
    "open_plain [116] = Workbook plain_sheet" "open_plain [115] = Workbook plain_sheet"
    "read_cell plain_sheet 2 1 = Content True [65] [97]"
    "find (\<lambda>item. c_article item = strip [65]) [plain_item] = Some plain_item"
    by (simp_all add: plain_session_def open_plain_def plain_read plain_cells_def
          plain_item_def strip_def isspace_examples)
  have cols:
    "find_invoice_columns plain_sheet (find_header_row plain_sheet) =
       \<lparr>name_col = None, unit_col = None, qty_col = Some 2, area_col = None\<rparr>"
    by (simp add: plain_invoice_columns)
  show ?thesis
    using unresolved_columns
      [where s = plain_session and tfile = "[116]" and sfile = "[115]" and ws = plain_sheet
         and ws' = plain_sheet and sh = plain_sheet and open_file = open_plain
         and can_save = True and area = no_area and cmp = "[plain_item]" and ms = "[]"
         and d = plain_date
         and cols = "\<lparr>name_col = None, unit_col = None, qty_col = Some 2, area_col = None\<rparr>"
         and cols' = "\<lparr>name_col = None, unit_col = None, qty_col = None, area_col = None\<rparr>"
         and data_row = 2 and row_num = 1
         and filled = "[SetValue 2 1 (WInt 1), SetValue 2 2 (WInt 1)]"
         and effects = "[SetValue 2 1 (WInt 1), SetValue 2 2 (WInt 1)]"
         and effects' = "[SetValue 1 3 (WStr shipped_header), SetValue 1 4 (WStr date_header),
            SetValue 2 3 (WInt 1), SetValue 2 4 (WStr plain_date)]"]
      facts cols plain_columns plain_invoice [of no_area] plain_update
      plain_rows [of no_area]
    by (simp add: plain_spec_columns del: invoice_rows.simps)
qed

theorem appended_column_counterexample:
  "shipped_col (find_spec_columns plain_sheet) = None \<and>
   date_col (find_spec_columns plain_sheet) = None \<and>
   generate_updated_specification open_plain True plain_session [plain_item] plain_date =
     Inr [SetValue 1 3 (WStr shipped_header), SetValue 1 4 (WStr date_header),
          SetValue 2 3 (WInt 1), SetValue 2 4 (WStr plain_date)]"
  by (simp add: plain_spec_columns plain_update)

section \<open>The order of the stages\<close>

text \<open>
  C2, as the code has it. Steps 1 and 2 test nothing: step 1 always answers, and step 2 runs
  in any state, records its result and sets the step to 3. Step 3 reads the photo quality
  once per photo: with no photo it succeeds in any state, records an empty result and sets
  the step to 4, and with a photo and no photo quality recorded it fails on the missing key.
  Step 4 fails with "markings missing" when no markings are recorded. Step 5 tests the
  specification file first and the markings second: it fails with "specification missing"
  when no file is uploaded, and with "markings missing" when a file is uploaded and no
  markings are recorded. Step 6 tests the date only: with a date that parses it records the
  parameters and sets the step to 7 in any state, and otherwise it fails with "wrong date
  format". Step 7 tests the comparison, then the parameters, then the markings, and fails
  with the first that is absent. Steps 3 to 7 leave the session as it was whenever they fail.
\<close>

theorem prerequisite_guards:
  "(\<exists>r. snd (step1_check_files s) = Inr r) \<and>
   (\<exists>r. step2_check_photo_quality open_image s =
      (s\<lparr>results := (results s)\<lparr>photo_quality := Some r\<rparr>, step := 3\<rparr>, Inr r)) \<and>
   (photos s = [] \<longrightarrow>
      (\<exists>r. step3_extract_markings gemini s =
         (s\<lparr>results := (results s)\<lparr>markings := Some r\<rparr>, step := 4\<rparr>, Inr r) \<and>
         mr_markings r = [])) \<and>
   (photos s \<noteq> [] \<and> photo_quality (results s) = None \<longrightarrow>
      step3_extract_markings gemini s = (s, Inl (KeyError ''photo_quality''))) \<and>
   (markings (results s) = None \<longrightarrow> step4_count_verification s = (s, Inl MarkingsMissing)) \<and>
   (\<not> present (specification_file s) \<longrightarrow>
      step5_compare_specification read_excel s = (s, Inl SpecificationMissing)) \<and>
   (present (specification_file s) \<and> markings (results s) = None \<longrightarrow>
      step5_compare_specification read_excel s = (s, Inl MarkingsMissing)) \<and>
   (strptime_ok shipment_date \<longrightarrow>
      (\<exists>p. step6_final_questions strptime_ok shipment_type shipment_date s =
         (s\<lparr>results := (results s)\<lparr>final_params := Some p\<rparr>, step := 7\<rparr>, Inr p))) \<and>
   (\<not> strptime_ok shipment_date \<longrightarrow>
      step6_final_questions strptime_ok shipment_type shipment_date s =
        (s, Inl InvalidDateFormat)) \<and>
   (comparison_stage (results s) = None \<longrightarrow>
      step7_generate_files area open_file save_invoice save_specification invoice_path
        spec_path s = (s, Inl ComparisonMissing)) \<and>
   (comparison_stage (results s) \<noteq> None \<and> final_params (results s) = None \<longrightarrow>
      step7_generate_files area open_file save_invoice save_specification invoice_path
        spec_path s = (s, Inl FinalParamsMissing)) \<and>
   (comparison_stage (results s) \<noteq> None \<and> final_params (results s) \<noteq> None \<and>
      markings (results s) = None \<longrightarrow>
      step7_generate_files area open_file save_invoice save_specification invoice_path
        spec_path s = (s, Inl MarkingsMissing)) \<and>
   (\<forall>e. snd (step3_extract_markings gemini s) = Inl e \<longrightarrow>
      fst (step3_extract_markings gemini s) = s) \<and>
   (\<forall>e. snd (step4_count_verification s) = Inl e \<longrightarrow> fst (step4_count_verification s) = s) \<and>
   (\<forall>e. snd (step5_compare_specification read_excel s) = Inl e \<longrightarrow>
      fst (step5_compare_specification read_excel s) = s) \<and>
   (\<forall>e. snd (step6_final_questions strptime_ok shipment_type shipment_date s) = Inl e \<longrightarrow>
      fst (step6_final_questions strptime_ok shipment_type shipment_date s) = s) \<and>
   (\<forall>e. snd (step7_generate_files area open_file save_invoice save_specification invoice_path
             spec_path s) = Inl e \<longrightarrow>
      fst (step7_generate_files area open_file save_invoice save_specification invoice_path
             spec_path s) = s)"
proof (intro conjI allI impI)
  show "\<exists>r. snd (step1_check_files s) = Inr r"
    by (simp add: step1_check_files_def Let_def)
  show "\<exists>r. step2_check_photo_quality open_image s =
      (s\<lparr>results := (results s)\<lparr>photo_quality := Some r\<rparr>, step := 3\<rparr>, Inr r)"
    by (simp add: step2_check_photo_quality_def Let_def)
  show "\<exists>r. step3_extract_markings gemini s =
         (s\<lparr>results := (results s)\<lparr>markings := Some r\<rparr>, step := 4\<rparr>, Inr r) \<and>
         mr_markings r = []"
    if "photos s = []"
    using that by (simp add: step3_extract_markings_def Let_def)
  show "step3_extract_markings gemini s = (s, Inl (KeyError ''photo_quality''))"
    if h: "photos s \<noteq> [] \<and> photo_quality (results s) = None"
  proof -
    obtain p ps where "photos s = p # ps"
      using h by (cases "photos s") auto
    then show ?thesis
      using h by (simp add: step3_extract_markings_def enumerate_simps)
  qed
  show "step4_count_verification s = (s, Inl MarkingsMissing)" if "markings (results s) = None"
    using that by (simp add: step4_count_verification_def)
  show "step5_compare_specification read_excel s = (s, Inl SpecificationMissing)"
    if "\<not> present (specification_file s)"
    using that
    by (simp add: step5_compare_specification_def present_def split: option.splits)
  show "step5_compare_specification read_excel s = (s, Inl MarkingsMissing)"
    if "present (specification_file s) \<and> markings (results s) = None"
    using that
    by (auto simp: step5_compare_specification_def present_def split: option.splits)
  show "\<exists>p. step6_final_questions strptime_ok shipment_type shipment_date s =
         (s\<lparr>results := (results s)\<lparr>final_params := Some p\<rparr>, step := 7\<rparr>, Inr p)"
    if "strptime_ok shipment_date"
    using that by (simp add: step6_final_questions_def Let_def)
  show "step6_final_questions strptime_ok shipment_type shipment_date s =
        (s, Inl InvalidDateFormat)"
    if "\<not> strptime_ok shipment_date"
    using that by (simp add: step6_final_questions_def)
  show "step7_generate_files area open_file save_invoice save_specification invoice_path
        spec_path s = (s, Inl ComparisonMissing)"
    if "comparison_stage (results s) = None"
    using that by (simp add: step7_generate_files_def)
  show "step7_generate_files area open_file save_invoice save_specification invoice_path
        spec_path s = (s, Inl FinalParamsMissing)"
    if "comparison_stage (results s) \<noteq> None \<and> final_params (results s) = None"
    using that by (auto simp: step7_generate_files_def)
  show "step7_generate_files area open_file save_invoice save_specification invoice_path
        spec_path s = (s, Inl MarkingsMissing)"
    if "comparison_stage (results s) \<noteq> None \<and> final_params (results s) \<noteq> None \<and>
      markings (results s) = None"
    using that by (auto simp: step7_generate_files_def)
  show "fst (step3_extract_markings gemini s) = s"
    if "snd (step3_extract_markings gemini s) = Inl e" for e
    using that by (auto simp: step3_extract_markings_def Let_def split: sum.splits)
  show "fst (step4_count_verification s) = s"
    if "snd (step4_count_verification s) = Inl e" for e
    using that
    by (auto simp: step4_count_verification_def Let_def split: option.splits sum.splits)
  show "fst (step5_compare_specification read_excel s) = s"
    if "snd (step5_compare_specification read_excel s) = Inl e" for e
    using that
    by (auto simp: step5_compare_specification_def Let_def
             split: option.splits sum.splits if_splits)
  show "fst (step6_final_questions strptime_ok shipment_type shipment_date s) = s"
    if "snd (step6_final_questions strptime_ok shipment_type shipment_date s) = Inl e" for e
    using that by (auto simp: step6_final_questions_def Let_def split: if_splits)
  show "fst (step7_generate_files area open_file save_invoice save_specification invoice_path
             spec_path s) = s"
    if "snd (step7_generate_files area open_file save_invoice save_specification invoice_path
             spec_path s) = Inl e" for e
    using that
    by (auto simp: step7_generate_files_def Let_def split: option.splits sum.splits)
qed

theorem prerequisite_guards_witness:
  "photos photo_session \<noteq> [] \<and> photo_quality (results photo_session) = None \<and>
   markings (results photo_session) = None \<and> \<not> present (specification_file photo_session) \<and>
   comparison_stage (results photo_session) = None \<and> \<not> takes_plain_date [120] \<and>
   step3_extract_markings gemini_example photo_session =
     (photo_session, Inl (KeyError ''photo_quality'')) \<and>
   step4_count_verification photo_session = (photo_session, Inl MarkingsMissing) \<and>
   step5_compare_specification read_example photo_session =
     (photo_session, Inl SpecificationMissing) \<and>
   step6_final_questions takes_plain_date full_type [120] photo_session =
     (photo_session, Inl InvalidDateFormat) \<and>
   step7_generate_files no_area open_plain True True [105] [115] photo_session =
     (photo_session, Inl ComparisonMissing) \<and>
   photos fresh_session = [] \<and>
   (\<exists>r. step3_extract_markings gemini_example fresh_session =
      (fresh_session\<lparr>results := (results fresh_session)\<lparr>markings := Some r\<rparr>, step := 4\<rparr>,
       Inr r) \<and>
      mr_markings r = []) \<and>
   present (specification_file plain_session) \<and> markings (results plain_session) = None \<and>
   step5_compare_specification read_example plain_session =
     (plain_session, Inl MarkingsMissing) \<and>
   takes_plain_date plain_date \<and>
   (\<exists>p. step6_final_questions takes_plain_date full_type plain_date plain_session =
      (plain_session\<lparr>results := (results plain_session)\<lparr>final_params := Some p\<rparr>, step := 7\<rparr>,
       Inr p)) \<and>
   comparison_stage (results compared_session) \<noteq> None \<and>
   final_params (results compared_session) = None \<and>
   step7_generate_files no_area open_plain True True [105] [115] compared_session =
     (compared_session, Inl FinalParamsMissing) \<and>
   comparison_stage (results asked_session) \<noteq> None \<and>
   final_params (results asked_session) \<noteq> None \<and>
   markings (results asked_session) = None \<and>
   step7_generate_files no_area open_plain True True [105] [115] asked_session =
     (asked_session, Inl MarkingsMissing)"
proof -
  have first:
    "photos photo_session \<noteq> []" "photo_quality (results photo_session) = None"
    "markings (results photo_session) = None" "\<not> present (specification_file photo_session)"
    "comparison_stage (results photo_session) = None" "\<not> takes_plain_date [120]"
    by (simp_all add: photo_session_def no_results_def two_photos_def present_def
          takes_plain_date_def plain_date_def)
  have empty: "photos fresh_session = []"
    by (simp add: fresh_session_def)
  have plain:
    "present (specification_file plain_session)" "markings (results plain_session) = None"
    "takes_plain_date plain_date"
    by (simp_all add: plain_session_def no_results_def present_def takes_plain_date_def)
  have compared:
    "comparison_stage (results compared_session) \<noteq> None"
    "final_params (results compared_session) = None"
    by (simp_all add: compared_session_def fresh_session_def no_results_def)
  have asked:
    "comparison_stage (results asked_session) \<noteq> None"
    "final_params (results asked_session) \<noteq> None"
    "markings (results asked_session) = None"
    by (simp_all add: asked_session_def fresh_session_def no_results_def)
  show ?thesis
    using
      prerequisite_guards
        [where s = photo_session and gemini = gemini_example and read_excel = read_example
           and strptime_ok = takes_plain_date and shipment_type = full_type
           and shipment_date = "[120]" and area = no_area and open_file = open_plain
           and save_invoice = True and save_specification = True and invoice_path = "[105]"
           and spec_path = "[115]"]
      prerequisite_guards [where s = fresh_session and gemini = gemini_example]
      prerequisite_guards
        [where s = plain_session and read_excel = read_example
           and strptime_ok = takes_plain_date and shipment_type = full_type
           and shipment_date = plain_date]
      prerequisite_guards
        [where s = compared_session and area = no_area and open_file = open_plain
           and save_invoice = True and save_specification = True and invoice_path = "[105]"
           and spec_path = "[115]"]
      prerequisite_guards
        [where s = asked_session and area = no_area and open_file = open_plain
           and save_invoice = True and save_specification = True and invoice_path = "[105]"
           and spec_path = "[115]"]
      first empty plain compared asked
    by simp
qed

theorem unguarded_quality_check_counterexample:
  "step photo_session = 1 \<and> results photo_session = no_results \<and>
   step1_check_files photo_session =
     (photo_session,
      Inr \<lparr>fc_success = False, fc_specification = 0, fc_template = 0, fc_photos = 2,
           fc_missing = [''specification'', ''template'']\<rparr>) \<and>
   step2_check_photo_quality open_example photo_session =
     (photo_session\<lparr>results := no_results\<lparr>photo_quality := Some example_quality\<rparr>, step := 3\<rparr>,
      Inr example_quality)"
proof -
  have "step1_check_files photo_session =
     (photo_session,
      Inr \<lparr>fc_success = False, fc_specification = 0, fc_template = 0, fc_photos = 2,
           fc_missing = [''specification'', ''template'']\<rparr>)"
    by (simp add: step1_check_files_def photo_session_def two_photos_def present_def Let_def)
  then show ?thesis
    using example_step2 by (simp add: photo_session_def)
qed

end
